theory Spec2Isabelle
  imports Main "HOL-Library.Sublist"
begin

section \<open>Python values\<close>

text \<open>
  The provider (resources/lib/providers/prima.py) works on values decoded from JSON:
  the cached token file and every HTTP response body. \<open>PNone\<close> is Python's \<open>None\<close>
  (JSON null), a \<open>PDict\<close> is an association list read with \<open>map_of\<close> (JSON object keys
  are strings). JSON numbers are modelled as integers: the provider only tests a number
  for truth and compares \<open>valid_to\<close> with an integer. Strings are lists of
  characters; what the library does with a string (\<open>str.lower\<close>, \<open>strptime\<close>) is taken
  from the environment.
\<close>

datatype pyval =
    PNone
  | PBool bool
  | PInt int
  | PStr string
  | PList "pyval list"
  | PDict "(string \<times> pyval) list"

text \<open>The exceptions the provider can raise or catch.\<close>

datatype exn = TypeError | KeyError | IndexError | AttributeError | ValueError | OverflowError

text \<open>Truth value testing (\<open>if x\<close>, \<open>not x\<close>, \<open>x and y\<close>, \<open>x or y\<close>).\<close>

fun truthy :: "pyval \<Rightarrow> bool" where
  "truthy PNone = False"
| "truthy (PBool b) = b"
| "truthy (PInt i) = (i \<noteq> 0)"
| "truthy (PStr s) = (s \<noteq> [])"
| "truthy (PList xs) = (xs \<noteq> [])"
| "truthy (PDict d) = (d \<noteq> [])"

definition py_or :: "pyval \<Rightarrow> pyval \<Rightarrow> pyval" where
  "py_or a b = (if truthy a then a else b)"

text \<open>\<open>d.get(k, default)\<close> on a dict.\<close>

definition dict_get :: "(string \<times> pyval) list \<Rightarrow> string \<Rightarrow> pyval \<Rightarrow> pyval" where
  "dict_get d k dflt = (case map_of d k of None \<Rightarrow> dflt | Some v \<Rightarrow> v)"

text \<open>\<open>sub in s\<close> on strings: \<open>sub\<close> occurs as a contiguous substring of \<open>s\<close>.\<close>

fun str_contains :: "string \<Rightarrow> string \<Rightarrow> bool" where
  "str_contains sub [] = (sub = [])"
| "str_contains sub (c # cs) = (prefix sub (c # cs) \<or> str_contains sub cs)"

text \<open>\<open>k in x\<close> for a string literal \<open>k\<close>: key membership on a dict, element membership
  on a list, substring test on a string, \<open>TypeError\<close> on anything else.\<close>

fun py_in :: "string \<Rightarrow> pyval \<Rightarrow> exn + bool" where
  "py_in k (PDict d) = Inr (map_of d k \<noteq> None)"
| "py_in k (PList xs) = Inr (PStr k \<in> set xs)"
| "py_in k (PStr s) = Inr (str_contains k s)"
| "py_in k _ = Inl TypeError"

text \<open>\<open>x[k]\<close> for a string literal \<open>k\<close>.\<close>

fun py_getitem :: "pyval \<Rightarrow> string \<Rightarrow> exn + pyval" where
  "py_getitem (PDict d) k = (case map_of d k of None \<Rightarrow> Inl KeyError | Some v \<Rightarrow> Inr v)"
| "py_getitem _ k = Inl TypeError"

text \<open>\<open>x[0]\<close>. The keys of a decoded JSON object are strings, so \<open>0\<close> is never a key.\<close>

fun py_getitem0 :: "pyval \<Rightarrow> exn + pyval" where
  "py_getitem0 (PList []) = Inl IndexError"
| "py_getitem0 (PList (x # xs)) = Inr x"
| "py_getitem0 (PStr []) = Inl IndexError"
| "py_getitem0 (PStr (c # cs)) = Inr (PStr [c])"
| "py_getitem0 (PDict d) = Inl KeyError"
| "py_getitem0 _ = Inl TypeError"

text \<open>\<open>len(x)\<close>.\<close>

fun py_len :: "pyval \<Rightarrow> exn + nat" where
  "py_len (PList xs) = Inr (length xs)"
| "py_len (PStr s) = Inr (length s)"
| "py_len (PDict d) = Inr (length d)"
| "py_len _ = Inl TypeError"

text \<open>The items \<open>for x in v\<close> runs over: the elements of a list, the characters of a
  string, the keys of a dict.\<close>

fun py_iter :: "pyval \<Rightarrow> exn + pyval list" where
  "py_iter (PList xs) = Inr xs"
| "py_iter (PStr s) = Inr (map (\<lambda>c. PStr [c]) s)"
| "py_iter (PDict d) = Inr (map (\<lambda>kv. PStr (fst kv)) d)"
| "py_iter _ = Inl TypeError"

text \<open>\<open>x[:n]\<close>: defined on strings and lists only.\<close>

fun py_slice :: "nat \<Rightarrow> pyval \<Rightarrow> exn + pyval" where
  "py_slice n (PStr s) = Inr (PStr (take n s))"
| "py_slice n (PList xs) = Inr (PList (take n xs))"
| "py_slice n _ = Inl TypeError"

text \<open>\<open>x > n\<close> for an integer \<open>n\<close>: numbers compare (\<open>True\<close> is 1, \<open>False\<close> is 0),
  anything else raises \<open>TypeError\<close>.\<close>

fun py_gt_int :: "pyval \<Rightarrow> int \<Rightarrow> exn + bool" where
  "py_gt_int (PInt i) n = Inr (i > n)"
| "py_gt_int (PBool b) n = Inr ((if b then 1 else 0) > n)"
| "py_gt_int _ n = Inl TypeError"

text \<open>\<open>x.lower()\<close>, with the library's \<open>str.lower\<close> given: a value that is not a
  string has no such method.\<close>

fun py_lower :: "(string \<Rightarrow> string) \<Rightarrow> pyval \<Rightarrow> exn + string" where
  "py_lower lw (PStr s) = Inr (lw s)"
| "py_lower lw _ = Inl AttributeError"

text \<open>\<open>s.replace(old, '')\<close> for a non-empty \<open>old\<close>: every occurrence found scanning left
  to right is dropped; \<open>skip\<close> counts the characters of a found occurrence still to drop.\<close>

fun remove_aux :: "string \<Rightarrow> nat \<Rightarrow> string \<Rightarrow> string" where
  "remove_aux old skip [] = []"
| "remove_aux old (Suc k) (c # cs) = remove_aux old k cs"
| "remove_aux old 0 (c # cs) =
     (if prefix old (c # cs) then remove_aux old (length old - 1) cs
      else c # remove_aux old 0 cs)"

definition str_remove :: "string \<Rightarrow> string \<Rightarrow> string" where
  "str_remove old s = remove_aux old 0 s"

fun py_remove :: "string \<Rightarrow> pyval \<Rightarrow> exn + string" where
  "py_remove old (PStr s) = Inr (str_remove old s)"
| "py_remove old _ = Inl AttributeError"

section \<open>The environment: settings, token file, clock, network\<close>

text \<open>
  An HTTP request the provider issues. The token is the value placed in the
  \<open>Authorization\<close> and \<open>X-OTT-Access-Token\<close> headers; a date is the day number
  (days since 1970-01-01) that \<open>strftime('%Y-%m-%d')\<close> renders.
\<close>

datatype request =
    Login string string
  | ChannelList pyval
  | ProgramList pyval pyval int
  | Play pyval pyval

text \<open>
  A naive \<open>datetime\<close> is the number of seconds between 1970-01-01T00:00:00 and it, on
  the calendar's own time line; comparing two of them compares these numbers. The
  representable range is 0001-01-01T00:00:00 to 9999-12-31T23:59:59.
\<close>

type_synonym datetime = int

definition dt_min :: datetime where
  "dt_min = - 62135596800"

definition dt_max :: datetime where
  "dt_max = 253402300799"

definition date_of :: "datetime \<Rightarrow> int" where
  "date_of t = t div 86400"

text \<open>
  What a call of the provider reads from outside and does not change:
  \<^item> \<open>prima_email\<close>, \<open>prima_password\<close>: what \<open>get_prima_settings\<close> returns
    (both empty when there is no addon object);
  \<^item> \<open>has_profile\<close>: \<open>get_token_file\<close> returns a path (\<open>_profile\<close> is set);
  \<^item> \<open>write_file\<close>: what writing the token file does (\<open>Written\<close>: it succeeds;
    \<open>NotOpened\<close>: \<open>open\<close> raises and the file stays as it was; \<open>Truncated\<close>: the file
    is opened, and so emptied, and the write raises);
  \<^item> \<open>time_now\<close>: \<open>int(time.time())\<close>; \<open>dt_now\<close>: \<open>datetime.now()\<close>, the local wall
    clock; both are read as standing still during one call of the provider;
  \<^item> \<open>http\<close>: the decoded JSON body the network gives for a request, after the
    requests issued so far; \<open>None\<close> when the request or the decoding raises;
  \<^item> \<open>strptime\<close>: the library's \<open>datetime.strptime(s, '%Y-%m-%dT%H:%M:%S')\<close>,
    \<open>None\<close> when it raises \<open>ValueError\<close>;
  \<^item> \<open>str_lower\<close>: the library's \<open>str.lower\<close>.
  What a call changes: the content of the token file (\<open>None\<close> when it does not exist
  or cannot be read and decoded) and the list of requests issued.
\<close>

datatype write_outcome = Written | NotOpened | Truncated

record world =
  prima_email :: string
  prima_password :: string
  has_profile :: bool
  write_file :: write_outcome
  time_now :: int
  dt_now :: datetime
  http :: "request list \<Rightarrow> request \<Rightarrow> pyval option"
  strptime :: "string \<Rightarrow> datetime option"
  str_lower :: "string \<Rightarrow> string"

record state =
  token_file :: "pyval option"
  requests :: "request list"

definition issue :: "request \<Rightarrow> state \<Rightarrow> state" where
  "issue req s = s\<lparr>requests := requests s @ [req]\<rparr>"

section \<open>Token cache and login\<close>

text \<open>\<open>save_token\<close> catches and logs every exception of the write.\<close>

definition save_token :: "world \<Rightarrow> pyval \<Rightarrow> state \<Rightarrow> state" where
  "save_token w token_data s =
     (if has_profile w then
        (case write_file w of
           Written \<Rightarrow> s\<lparr>token_file := Some token_data\<rparr>
         | NotOpened \<Rightarrow> s
         | Truncated \<Rightarrow> s\<lparr>token_file := None\<rparr>)
      else s)"

text \<open>\<open>load_token\<close> logs \<open>data.get('valid_to', 'unknown')\<close> inside its \<open>try\<close>: a decoded
  value that is not a dict raises there, and the \<open>except\<close> makes the result \<open>None\<close>.\<close>

definition load_token :: "world \<Rightarrow> state \<Rightarrow> pyval" where
  "load_token w s =
     (if has_profile w then
        (case token_file s of
           Some (PDict data) \<Rightarrow> PDict data
         | _ \<Rightarrow> PNone)
      else PNone)"

text \<open>The cache test of \<open>get_prima_token\<close>: \<open>Some t\<close> when it returns \<open>cached['token']\<close>,
  \<open>None\<close> when it goes on to the login.\<close>

definition cached_token :: "int \<Rightarrow> pyval \<Rightarrow> exn + pyval option" where
  "cached_token now cached =
     (if \<not> truthy cached then Inr None
      else case py_in ''token'' cached of
        Inl e \<Rightarrow> Inl e
      | Inr False \<Rightarrow> Inr None
      | Inr True \<Rightarrow>
         (case py_in ''valid_to'' cached of
            Inl e \<Rightarrow> Inl e
          | Inr False \<Rightarrow> Inr None
          | Inr True \<Rightarrow>
             (case py_getitem cached ''valid_to'' of
                Inl e \<Rightarrow> Inl e
              | Inr v \<Rightarrow>
                 (case py_gt_int v now of
                    Inl e \<Rightarrow> Inl e
                  | Inr False \<Rightarrow> Inr None
                  | Inr True \<Rightarrow>
                     (case py_getitem cached ''token'' of
                        Inl e \<Rightarrow> Inl e
                      | Inr t \<Rightarrow> Inr (Some t))))))"

text \<open>\<open>data['accessToken']['value']\<close> when \<open>'accessToken' in data\<close>; the enclosing
  \<open>try\<close> turns every exception into "no token".\<close>

definition access_token :: "pyval \<Rightarrow> pyval option" where
  "access_token data =
     (case py_in ''accessToken'' data of
        Inr True \<Rightarrow>
         (case py_getitem data ''accessToken'' of
            Inr a \<Rightarrow> (case py_getitem a ''value'' of Inr t \<Rightarrow> Some t | Inl e \<Rightarrow> None)
          | Inl e \<Rightarrow> None)
      | _ \<Rightarrow> None)"

definition token_record :: "pyval \<Rightarrow> int \<Rightarrow> pyval" where
  "token_record token valid_to = PDict [(''token'', token), (''valid_to'', PInt valid_to)]"

definition get_prima_token :: "world \<Rightarrow> state \<Rightarrow> (exn + pyval) \<times> state" where
  "get_prima_token w s =
     (case cached_token (time_now w) (load_token w s) of
        Inl e \<Rightarrow> (Inl e, s)
      | Inr (Some t) \<Rightarrow> (Inr t, s)
      | Inr None \<Rightarrow>
         if prima_email w = [] \<or> prima_password w = [] then (Inr PNone, s)
         else
           (case http w (requests s) (Login (prima_email w) (prima_password w)) of
              None \<Rightarrow> (Inr PNone, issue (Login (prima_email w) (prima_password w)) s)
            | Some data \<Rightarrow>
               (case access_token data of
                  None \<Rightarrow> (Inr PNone, issue (Login (prima_email w) (prima_password w)) s)
                | Some token \<Rightarrow>
                   (Inr token,
                    save_token w (token_record token (time_now w + 7 * 60 * 60))
                      (issue (Login (prima_email w) (prima_password w)) s)))))"

section \<open>Channel list and per-day programme listings\<close>

text \<open>\<open>data['result']['data']\<close> when \<open>'result' in data and 'data' in data['result']\<close>.\<close>

definition result_data :: "pyval \<Rightarrow> exn + pyval option" where
  "result_data data =
     (case py_in ''result'' data of
        Inl e \<Rightarrow> Inl e
      | Inr False \<Rightarrow> Inr None
      | Inr True \<Rightarrow>
         (case py_getitem data ''result'' of
            Inl e \<Rightarrow> Inl e
          | Inr r \<Rightarrow>
             (case py_in ''data'' r of
                Inl e \<Rightarrow> Inl e
              | Inr False \<Rightarrow> Inr None
              | Inr True \<Rightarrow>
                 (case py_getitem r ''data'' of
                    Inl e \<Rightarrow> Inl e
                  | Inr rows \<Rightarrow> Inr (Some rows)))))"

fun is_dict :: "pyval \<Rightarrow> bool" where
  "is_dict (PDict d) = True"
| "is_dict _ = False"

text \<open>The body of the \<open>try\<close> of \<open>get_epg_channels\<close> after the response is decoded: the
  log lines take \<open>len(channels)\<close> and call \<open>ch.get\<close> on every element, so anything but
  a collection of dicts raises, and the \<open>except\<close> makes the result \<open>None\<close>.\<close>

definition channels_of :: "pyval \<Rightarrow> pyval" where
  "channels_of data =
     (case result_data data of
        Inr (Some channels) \<Rightarrow>
         (case py_len channels of
            Inl e \<Rightarrow> PNone
          | Inr n \<Rightarrow>
             (case py_iter channels of
                Inl e \<Rightarrow> PNone
              | Inr chs \<Rightarrow> if list_all is_dict chs then channels else PNone))
      | _ \<Rightarrow> PNone)"

definition get_epg_channels :: "world \<Rightarrow> state \<Rightarrow> (exn + pyval) \<times> state" where
  "get_epg_channels w s =
     (case get_prima_token w s of
        (Inl e, s1) \<Rightarrow> (Inl e, s1)
      | (Inr token, s1) \<Rightarrow>
         if \<not> truthy token then (Inr PNone, s1)
         else
           (case http w (requests s1) (ChannelList token) of
              None \<Rightarrow> (Inr PNone, issue (ChannelList token) s1)
            | Some data \<Rightarrow> (Inr (channels_of data), issue (ChannelList token) s1)))"

text \<open>\<open>t + timedelta(seconds = d)\<close>: \<open>OverflowError\<close> outside the representable range.\<close>

definition dt_add :: "datetime \<Rightarrow> int \<Rightarrow> exn + datetime" where
  "dt_add t d = (if dt_min \<le> t + d \<and> t + d \<le> dt_max then Inr (t + d) else Inl OverflowError)"

text \<open>The body of the \<open>try\<close> of \<open>get_epg_program\<close> after the response is decoded.\<close>

definition epg_items :: "pyval \<Rightarrow> exn + pyval" where
  "epg_items data =
     (case result_data data of
        Inl e \<Rightarrow> Inl e
      | Inr None \<Rightarrow> Inr PNone
      | Inr (Some rows) \<Rightarrow>
         (case py_len rows of
            Inl e \<Rightarrow> Inl e
          | Inr n \<Rightarrow>
             if \<not> n > 0 then Inr PNone
             else
               (case py_getitem0 rows of
                  Inl e \<Rightarrow> Inl e
                | Inr channel_data \<Rightarrow>
                   (case py_in ''items'' channel_data of
                      Inl e \<Rightarrow> Inl e
                    | Inr False \<Rightarrow> Inr PNone
                    | Inr True \<Rightarrow>
                       (case py_getitem channel_data ''items'' of
                          Inl e \<Rightarrow> Inl e
                        | Inr programs \<Rightarrow>
                           (case py_len programs of
                              Inl e \<Rightarrow> Inl e
                            | Inr m \<Rightarrow> Inr programs))))))"

definition programs_of :: "pyval \<Rightarrow> pyval" where
  "programs_of data = (case epg_items data of Inl e \<Rightarrow> PNone | Inr programs \<Rightarrow> programs)"

definition get_epg_program :: "world \<Rightarrow> pyval \<Rightarrow> int \<Rightarrow> state \<Rightarrow> (exn + pyval) \<times> state" where
  "get_epg_program w channel_id day_offset s =
     (case get_prima_token w s of
        (Inl e, s1) \<Rightarrow> (Inl e, s1)
      | (Inr token, s1) \<Rightarrow>
         if \<not> truthy token then (Inr PNone, s1)
         else
           (case dt_add (dt_now w) (day_offset * 86400) of
              Inl e \<Rightarrow> (Inr PNone, s1)
            | Inr target_date \<Rightarrow>
               (case http w (requests s1) (ProgramList token channel_id (date_of target_date)) of
                  None \<Rightarrow>
                   (Inr PNone, issue (ProgramList token channel_id (date_of target_date)) s1)
                | Some data \<Rightarrow>
                   (Inr (programs_of data),
                    issue (ProgramList token channel_id (date_of target_date)) s1))))"

section \<open>Finding the programme at a timestamp\<close>

text \<open>\<open>datetime.utcfromtimestamp(t)\<close>, and the conversion of the search: one hour is
  added to the UTC datetime.\<close>

definition utcfromtimestamp :: "int \<Rightarrow> exn + datetime" where
  "utcfromtimestamp t = (if dt_min \<le> t \<and> t \<le> dt_max then Inr t else Inl ValueError)"

definition program_time :: "int \<Rightarrow> exn + datetime" where
  "program_time utc_timestamp =
     (case utcfromtimestamp utc_timestamp of
        Inl e \<Rightarrow> Inl e
      | Inr utc_time \<Rightarrow> dt_add utc_time (1 * 3600))"

text \<open>\<open>datetime.strptime(x, fmt)\<close> on a value: \<open>TypeError\<close> unless it is a string.\<close>

fun py_strptime :: "(string \<Rightarrow> datetime option) \<Rightarrow> pyval \<Rightarrow> exn + datetime" where
  "py_strptime parse (PStr s) = (case parse s of None \<Rightarrow> Inl ValueError | Some t \<Rightarrow> Inr t)"
| "py_strptime parse _ = Inl TypeError"

text \<open>What one pass of the inner loop does with a listing item: go on to the next
  item, or return from the search with a value.\<close>

datatype outcome = Continue | Return pyval

text \<open>The local variables of the inner loop, read from an item that is a dict.\<close>

definition start_str :: "(string \<times> pyval) list \<Rightarrow> pyval" where
  "start_str d =
     py_or (py_or (dict_get d ''programStartTime'' PNone) (dict_get d ''startTime'' PNone))
       (PStr [])"

definition end_str :: "(string \<times> pyval) list \<Rightarrow> pyval" where
  "end_str d =
     py_or (py_or (dict_get d ''programEndTime'' PNone) (dict_get d ''endTime'' PNone))
       (PStr [])"

definition item_playable :: "(string \<times> pyval) list \<Rightarrow> pyval" where
  "item_playable d = dict_get d ''isPlayable'' (PBool False)"

definition item_play_id :: "(string \<times> pyval) list \<Rightarrow> pyval" where
  "item_play_id d = py_or (dict_get d ''playId'' PNone) (dict_get d ''id'' PNone)"

text \<open>\<open>datetime.strptime(x[:19], '%Y-%m-%dT%H:%M:%S')\<close>.\<close>

definition parse_time :: "world \<Rightarrow> pyval \<Rightarrow> exn + datetime" where
  "parse_time w x =
     (case py_slice 19 x of Inl e \<Rightarrow> Inl e | Inr x19 \<Rightarrow> py_strptime (strptime w) x19)"

text \<open>What the search returns at a matching item.\<close>

definition verdict :: "(string \<times> pyval) list \<Rightarrow> pyval" where
  "verdict d = (if truthy (item_playable d) \<and> truthy (item_play_id d) then item_play_id d else PNone)"

text \<open>The body of the inner \<open>try\<close>, for one item. Both strings are sliced before
  either is parsed.\<close>

definition check_program_body :: "world \<Rightarrow> datetime \<Rightarrow> pyval \<Rightarrow> exn + outcome" where
  "check_program_body w ptime program =
     (case program of
        PDict d \<Rightarrow>
         if \<not> truthy (start_str d) \<or> \<not> truthy (end_str d) then Inr Continue
         else
           (case py_slice 19 (start_str d) of
              Inl e \<Rightarrow> Inl e
            | Inr s19 \<Rightarrow>
               (case py_slice 19 (end_str d) of
                  Inl e \<Rightarrow> Inl e
                | Inr e19 \<Rightarrow>
                   (case py_strptime (strptime w) s19 of
                      Inl e \<Rightarrow> Inl e
                    | Inr start_time \<Rightarrow>
                       (case py_strptime (strptime w) e19 of
                          Inl e \<Rightarrow> Inl e
                        | Inr end_time \<Rightarrow>
                           if start_time \<le> ptime \<and> ptime \<le> end_time
                           then Inr (Return (verdict d))
                           else Inr Continue))))
      | _ \<Rightarrow> Inr Continue)"

text \<open>The \<open>except\<close> of the inner \<open>try\<close>: log and go on.\<close>

definition check_program :: "world \<Rightarrow> datetime \<Rightarrow> pyval \<Rightarrow> outcome" where
  "check_program w ptime program =
     (case check_program_body w ptime program of Inl e \<Rightarrow> Continue | Inr r \<Rightarrow> r)"

fun scan_programs :: "world \<Rightarrow> datetime \<Rightarrow> pyval list \<Rightarrow> outcome" where
  "scan_programs w ptime [] = Continue"
| "scan_programs w ptime (program # rest) =
     (case check_program w ptime program of
        Return r \<Rightarrow> Return r
      | Continue \<Rightarrow> scan_programs w ptime rest)"

text \<open>One pass of the outer loop once the listing is fetched. For day offset 0 the
  log line reads \<open>programs[0]\<close>, outside any \<open>try\<close>.\<close>

definition scan_day :: "world \<Rightarrow> datetime \<Rightarrow> int \<Rightarrow> pyval \<Rightarrow> exn + outcome" where
  "scan_day w ptime day_offset programs =
     (if \<not> truthy programs then Inr Continue
      else case py_len programs of
        Inl e \<Rightarrow> Inl e
      | Inr n \<Rightarrow>
         (case (if day_offset = 0 then py_getitem0 programs else Inr PNone) of
            Inl e \<Rightarrow> Inl e
          | Inr first \<Rightarrow>
             (case py_iter programs of
                Inl e \<Rightarrow> Inl e
              | Inr items \<Rightarrow> Inr (scan_programs w ptime items))))"

text \<open>The outer loop: \<open>Return r\<close> when the search returns \<open>r\<close> from inside it,
  \<open>Continue\<close> when it runs through all the day offsets.\<close>

fun scan_days ::
  "world \<Rightarrow> pyval \<Rightarrow> datetime \<Rightarrow> int list \<Rightarrow> state \<Rightarrow> (exn + outcome) \<times> state" where
  "scan_days w channel_id ptime [] s = (Inr Continue, s)"
| "scan_days w channel_id ptime (day_offset # rest) s =
     (case get_epg_program w channel_id day_offset s of
        (Inl e, s1) \<Rightarrow> (Inl e, s1)
      | (Inr programs, s1) \<Rightarrow>
         (case scan_day w ptime day_offset programs of
            Inl e \<Rightarrow> (Inl e, s1)
          | Inr (Return r) \<Rightarrow> (Inr (Return r), s1)
          | Inr Continue \<Rightarrow> scan_days w channel_id ptime rest s1))"

text \<open>\<open>range(0, -8, -1)\<close>.\<close>

definition day_offsets :: "int list" where
  "day_offsets = [0, -1, -2, -3, -4, -5, -6, -7]"

text \<open>What the search returns once the loop has returned a value, has run to its end
  ("No matching program found in archive": \<open>None\<close>) or has raised.\<close>

definition search_result :: "(exn + outcome) \<times> state \<Rightarrow> (exn + pyval) \<times> state" where
  "search_result r =
     (case r of
        (Inl e, s1) \<Rightarrow> (Inl e, s1)
      | (Inr (Return v), s1) \<Rightarrow> (Inr v, s1)
      | (Inr Continue, s1) \<Rightarrow> (Inr PNone, s1))"

definition find_program_by_timestamp ::
  "world \<Rightarrow> pyval \<Rightarrow> int \<Rightarrow> state \<Rightarrow> (exn + pyval) \<times> state" where
  "find_program_by_timestamp w prima_channel_id utc_timestamp s =
     (case program_time utc_timestamp of
        Inl e \<Rightarrow> (Inl e, s)
      | Inr ptime \<Rightarrow> search_result (scan_days w prima_channel_id ptime day_offsets s))"

section \<open>Catchup resolution\<close>

definition channel_name_map :: "(string \<times> string list) list" where
  "channel_name_map =
     [(''prima'', [''prima'', ''tv prima'']),
      (''primacool'', [''cool'', ''prima cool'']),
      (''primamax'', [''max'', ''prima max'']),
      (''primakrimi'', [''krimi'', ''prima krimi'']),
      (''primalove'', [''love'', ''prima love'']),
      (''primazoom'', [''zoom'', ''prima zoom'']),
      (''primastar'', [''star'', ''prima star'']),
      (''primashow'', [''show'', ''prima show'']),
      (''cnnprimanews'', [''cnn'', ''cnn prima''])]"

text \<open>\<open>channel_name_map.get(channel_id, [channel_id])\<close>.\<close>

definition search_names :: "string \<Rightarrow> string list" where
  "search_names channel_id =
     (case map_of channel_name_map channel_id of None \<Rightarrow> [channel_id] | Some names \<Rightarrow> names)"

text \<open>The inner loop over \<open>search_names\<close>: some name, lower-cased, occurs in the title.\<close>

definition name_matches :: "world \<Rightarrow> string list \<Rightarrow> string \<Rightarrow> bool" where
  "name_matches w names title = list_ex (\<lambda>name. str_contains (str_lower w name) title) names"

text \<open>\<open>ch.get('title', '').lower()\<close> and \<open>ch.get('id', '')\<close>.\<close>

definition ch_title :: "world \<Rightarrow> (string \<times> pyval) list \<Rightarrow> exn + string" where
  "ch_title w d = py_lower (str_lower w) (dict_get d ''title'' (PStr []))"

definition ch_id :: "(string \<times> pyval) list \<Rightarrow> pyval" where
  "ch_id d = dict_get d ''id'' (PStr [])"

text \<open>The loop over the channels. \<open>prima_channel_id\<close> is the variable of that name: it
  takes the id of a channel whose title matches, and the loop stops once it is truthy.\<close>

fun find_channel :: "world \<Rightarrow> string list \<Rightarrow> pyval \<Rightarrow> pyval list \<Rightarrow> exn + pyval" where
  "find_channel w names prima_channel_id [] = Inr prima_channel_id"
| "find_channel w names prima_channel_id (ch # rest) =
     (case ch of
        PDict d \<Rightarrow>
         (case ch_title w d of
            Inl e \<Rightarrow> Inl e
          | Inr title \<Rightarrow>
             if name_matches w names title then
               (if truthy (ch_id d) then Inr (ch_id d)
                else find_channel w names (ch_id d) rest)
             else if truthy prima_channel_id then Inr prima_channel_id
             else find_channel w names prima_channel_id rest)
      | _ \<Rightarrow> Inl AttributeError)"

definition resolve_channel :: "world \<Rightarrow> string \<Rightarrow> pyval \<Rightarrow> exn + pyval" where
  "resolve_channel w channel_id channels =
     (case py_iter channels of
        Inl e \<Rightarrow> Inl e
      | Inr chs \<Rightarrow> find_channel w (search_names channel_id) PNone chs)"

text \<open>
  What \<open>get_catchup_stream\<close> returns: the stream descriptor (a dict with \<open>url\<close>,
  \<open>manifest_type\<close> and \<open>headers\<close>) or a dict with the one key \<open>error\<close>. The error
  messages are fixed texts, given here without their diacritics:
  \<^item> \<open>LoginRequired\<close>: "Prima+ catchup vyzaduje prihlaseni. Nastavte email a heslo v
    nastavenich doplnku.";
  \<^item> \<open>ChannelListFailed\<close>: "Nelze ziskat seznam kanalu Prima";
  \<^item> \<open>ChannelNotFound c\<close>: "Kanal nenalezen: " followed by the channel key \<open>c\<close>;
  \<^item> \<open>ProgramNotFound\<close>: "Program nebyl nalezen v archivu Prima+";
  \<^item> \<open>ProviderError v\<close>: "Prima+ error: " followed by the payload \<open>v\<close>;
  \<^item> \<open>StreamRequestError\<close>: "Chyba pri ziskavani streamu: " followed by the text of
    the exception caught;
  \<^item> \<open>StreamNotFound\<close>: "Stream nenalezen".
\<close>

datatype error =
    LoginRequired
  | ChannelListFailed
  | ChannelNotFound string
  | ProgramNotFound
  | ProviderError pyval
  | StreamRequestError
  | StreamNotFound

definition HEADERS :: "(string \<times> string) list" where
  "HEADERS =
     [(''User-Agent'',
       ''Mozilla/5.0 (Windows NT 10.0; Win64; x64) AppleWebKit/537.36 (KHTML, like Gecko) Chrome/77.0.3865.90 Safari/537.36'')]"

record descriptor =
  url :: string
  manifest_type :: string
  headers :: "(string \<times> string) list"

datatype result = Stream descriptor | Error error

text \<open>\<open>stream.get('type', 'unknown')\<close> and \<open>stream.get('url', '')\<close>.\<close>

definition stream_type :: "(string \<times> pyval) list \<Rightarrow> pyval" where
  "stream_type d = dict_get d ''type'' (PStr ''unknown'')"

definition stream_url_temp :: "(string \<times> pyval) list \<Rightarrow> pyval" where
  "stream_url_temp d = dict_get d ''url'' (PStr [])"

text \<open>The loop "prefer HLS stream": the value of \<open>stream_url\<close> after it. The log line
  slices the url of every entry it passes.\<close>

fun prefer_hls :: "pyval list \<Rightarrow> exn + pyval" where
  "prefer_hls [] = Inr PNone"
| "prefer_hls (stream # rest) =
     (case stream of
        PDict d \<Rightarrow>
         (case py_slice 50 (stream_url_temp d) of
            Inl e \<Rightarrow> Inl e
          | Inr shown \<Rightarrow>
             if stream_type d = PStr ''HLS'' \<and> truthy (stream_url_temp d)
             then Inr (stream_url_temp d)
             else prefer_hls rest)
      | _ \<Rightarrow> Inl AttributeError)"

text \<open>\<open>data['streamInfos'][0].get('url')\<close>.\<close>

definition first_url :: "pyval \<Rightarrow> exn + pyval" where
  "first_url infos =
     (case py_getitem0 infos of
        Inl e \<Rightarrow> Inl e
      | Inr (PDict d) \<Rightarrow> Inr (dict_get d ''url'' PNone)
      | Inr _ \<Rightarrow> Inl AttributeError)"

text \<open>The url chosen from a truthy \<open>data['streamInfos']\<close>.\<close>

definition choose_url :: "pyval \<Rightarrow> exn + pyval" where
  "choose_url infos =
     (case py_len infos of
        Inl e \<Rightarrow> Inl e
      | Inr n \<Rightarrow>
         (case py_iter infos of
            Inl e \<Rightarrow> Inl e
          | Inr streams \<Rightarrow>
             (case prefer_hls streams of
                Inl e \<Rightarrow> Inl e
              | Inr stream_url \<Rightarrow>
                 if \<not> truthy stream_url \<and> truthy infos then first_url infos
                 else Inr stream_url)))"

text \<open>The tail of the \<open>try\<close>: "check for errors", then the final \<open>return\<close>.\<close>

definition no_stream :: "pyval \<Rightarrow> exn + result" where
  "no_stream data =
     (case py_in ''error'' data of
        Inl e \<Rightarrow> Inl e
      | Inr False \<Rightarrow> Inr (Error StreamNotFound)
      | Inr True \<Rightarrow>
         (case py_getitem data ''error'' of
            Inl e \<Rightarrow> Inl e
          | Inr payload \<Rightarrow> Inr (Error (ProviderError payload))))"

text \<open>The body of the last \<open>try\<close> of \<open>get_catchup_stream\<close> after the response is
  decoded.\<close>

definition archive_stream_body :: "pyval \<Rightarrow> exn + result" where
  "archive_stream_body data =
     (case py_in ''streamInfos'' data of
        Inl e \<Rightarrow> Inl e
      | Inr False \<Rightarrow> no_stream data
      | Inr True \<Rightarrow>
         (case py_getitem data ''streamInfos'' of
            Inl e \<Rightarrow> Inl e
          | Inr infos \<Rightarrow>
             if \<not> truthy infos then no_stream data
             else
               (case choose_url infos of
                  Inl e \<Rightarrow> Inl e
                | Inr stream_url \<Rightarrow>
                   if truthy stream_url then
                     (case py_remove ''_lq'' stream_url of
                        Inl e \<Rightarrow> Inl e
                      | Inr u \<Rightarrow>
                         Inr (Stream \<lparr>url = u, manifest_type = ''hls'', headers = HEADERS\<rparr>))
                   else no_stream data)))"

text \<open>The \<open>except\<close> of that \<open>try\<close>.\<close>

definition archive_stream :: "pyval \<Rightarrow> result" where
  "archive_stream data =
     (case archive_stream_body data of Inl e \<Rightarrow> Error StreamRequestError | Inr r \<Rightarrow> r)"

definition get_catchup_stream ::
  "world \<Rightarrow> string \<Rightarrow> int \<Rightarrow> state \<Rightarrow> (exn + result) \<times> state" where
  "get_catchup_stream w channel_id utc_timestamp s =
     (case get_prima_token w s of
        (Inl e, s1) \<Rightarrow> (Inl e, s1)
      | (Inr token, s1) \<Rightarrow>
         if \<not> truthy token then (Inr (Error LoginRequired), s1)
         else
           (case get_epg_channels w s1 of
              (Inl e, s2) \<Rightarrow> (Inl e, s2)
            | (Inr channels, s2) \<Rightarrow>
               if \<not> truthy channels then (Inr (Error ChannelListFailed), s2)
               else
                 (case resolve_channel w channel_id channels of
                    Inl e \<Rightarrow> (Inl e, s2)
                  | Inr prima_channel_id \<Rightarrow>
                     if \<not> truthy prima_channel_id
                     then (Inr (Error (ChannelNotFound channel_id)), s2)
                     else
                       (case find_program_by_timestamp w prima_channel_id utc_timestamp s2 of
                          (Inl e, s3) \<Rightarrow> (Inl e, s3)
                        | (Inr play_id, s3) \<Rightarrow>
                           if \<not> truthy play_id then (Inr (Error ProgramNotFound), s3)
                           else
                             (case http w (requests s3) (Play token play_id) of
                                None \<Rightarrow>
                                 (Inr (Error StreamRequestError), issue (Play token play_id) s3)
                              | Some data \<Rightarrow>
                                 (Inr (archive_stream data),
                                  issue (Play token play_id) s3))))))"

section \<open>Notions the properties are stated with\<close>

text \<open>An item is a match for the instant when the inner loop returns at it.\<close>

definition covers :: "world \<Rightarrow> datetime \<Rightarrow> pyval \<Rightarrow> bool" where
  "covers w ptime program = (check_program w ptime program \<noteq> Continue)"

text \<open>An item the search cannot read: not a dict, or a dict with no (truthy) start or
  end time under either key, or one whose start or end does not parse.\<close>

definition malformed :: "world \<Rightarrow> pyval \<Rightarrow> bool" where
  "malformed w program =
     (case program of
        PDict d \<Rightarrow>
          \<not> truthy (start_str d) \<or> \<not> truthy (end_str d)
          \<or> isl (parse_time w (start_str d)) \<or> isl (parse_time w (end_str d))
      | _ \<Rightarrow> True)"

text \<open>The selection policy for stream entries, stated on its own: the url of the first
  entry of type HLS that has a non-empty url, else the url of the first entry.\<close>

definition selected_url :: "(string \<times> pyval) list list \<Rightarrow> pyval" where
  "selected_url ds =
     (case filter (\<lambda>d. stream_type d = PStr ''HLS'' \<and> truthy (stream_url_temp d)) ds of
        d # rest \<Rightarrow> stream_url_temp d
      | [] \<Rightarrow> (case ds of [] \<Rightarrow> PNone | d0 # rest \<Rightarrow> dict_get d0 ''url'' PNone))"

text \<open>
  No valid cached token: there is no token file (or no profile directory, or the file's
  content is not a JSON object), or the record lacks \<open>token\<close> or \<open>valid_to\<close>, or its
  \<open>valid_to\<close> is an integer not greater than the current epoch time.
\<close>

definition no_valid_cache :: "world \<Rightarrow> state \<Rightarrow> bool" where
  "no_valid_cache w s =
     (\<not> has_profile w
      \<or> (case token_file s of
            None \<Rightarrow> True
          | Some (PDict d) \<Rightarrow>
              map_of d ''token'' = None \<or> map_of d ''valid_to'' = None
              \<or> (case map_of d ''valid_to'' of
                    Some (PInt v) \<Rightarrow> v \<le> time_now w
                  | _ \<Rightarrow> False)
          | Some _ \<Rightarrow> True))"

text \<open>What \<open>get_epg_program\<close> makes of the reply to the request for a day offset,
  counted from the current local date, after the requests \<open>h\<close>.\<close>

definition day_listing :: "world \<Rightarrow> pyval \<Rightarrow> pyval \<Rightarrow> request list \<Rightarrow> int \<Rightarrow> pyval" where
  "day_listing w tok cid h off =
     (case http w h (ProgramList tok cid (date_of (dt_now w) + off)) of
        None \<Rightarrow> PNone
      | Some data \<Rightarrow> programs_of data)"

text \<open>A day's listing with no covering programme: no listing, or a list none of whose
  items is a match.\<close>

definition no_cover :: "world \<Rightarrow> datetime \<Rightarrow> pyval \<Rightarrow> bool" where
  "no_cover w ptime programs =
     (case programs of
        PNone \<Rightarrow> True
      | PList items \<Rightarrow> list_all (\<lambda>p. \<not> covers w ptime p) items
      | _ \<Rightarrow> False)"

text \<open>The listings fetched one after the other for the day offsets \<open>offs\<close>, starting
  after the requests \<open>h\<close>, hold no covering programme.\<close>

fun quiet_days ::
  "world \<Rightarrow> pyval \<Rightarrow> pyval \<Rightarrow> datetime \<Rightarrow> request list \<Rightarrow> int list \<Rightarrow> bool" where
  "quiet_days w tok cid ptime h [] = True"
| "quiet_days w tok cid ptime h (off # offs) =
     (no_cover w ptime (day_listing w tok cid h off)
      \<and> quiet_days w tok cid ptime (h @ [ProgramList tok cid (date_of (dt_now w) + off)]) offs)"

section \<open>A parser and worlds to run the provider on\<close>

text \<open>
  The timestamps of the provider's listings have the fixed-width form
  \<open>YYYY-MM-DDTHH:MM:SS\<close>. On such a string \<open>strptime\<close> gives the datetime with these
  fields; \<open>strptime_iso\<close> computes it (days from the civil date, then seconds) and
  rejects every other string. It stands for the library's parser in the concrete
  worlds below.
\<close>

definition digit :: "char \<Rightarrow> int option" where
  "digit c =
     (let n = (of_char c :: nat) in if 48 \<le> n \<and> n \<le> 57 then Some (int n - 48) else None)"

fun number :: "int \<Rightarrow> string \<Rightarrow> int option" where
  "number acc [] = Some acc"
| "number acc (c # cs) =
     (case digit c of None \<Rightarrow> None | Some d \<Rightarrow> number (10 * acc + d) cs)"

definition is_leap :: "int \<Rightarrow> bool" where
  "is_leap y = (y mod 4 = 0 \<and> (y mod 100 \<noteq> 0 \<or> y mod 400 = 0))"

definition days_in_month :: "int \<Rightarrow> int \<Rightarrow> int" where
  "days_in_month y m =
     (if m = 2 then (if is_leap y then 29 else 28)
      else if m = 4 \<or> m = 6 \<or> m = 9 \<or> m = 11 then 30 else 31)"

definition days_from_civil :: "int \<Rightarrow> int \<Rightarrow> int \<Rightarrow> int" where
  "days_from_civil y m d =
     (let y1 = (if m \<le> 2 then y - 1 else y);
          era = y1 div 400;
          yoe = y1 - era * 400;
          doy = (153 * (if m > 2 then m - 3 else m + 9) + 2) div 5 + d - 1;
          doe = yoe * 365 + yoe div 4 - yoe div 100 + doy
      in era * 146097 + doe - 719468)"

definition civil_datetime :: "int \<Rightarrow> int \<Rightarrow> int \<Rightarrow> int \<Rightarrow> int \<Rightarrow> int \<Rightarrow> datetime option" where
  "civil_datetime y m d hh mm ss =
     (if 1 \<le> y \<and> 1 \<le> m \<and> m \<le> 12 \<and> 1 \<le> d \<and> d \<le> days_in_month y m
         \<and> hh \<le> 23 \<and> mm \<le> 59 \<and> ss \<le> 59
      then Some (days_from_civil y m d * 86400 + hh * 3600 + mm * 60 + ss)
      else None)"

fun strptime_iso :: "string \<Rightarrow> datetime option" where
  "strptime_iso [y1, y2, y3, y4, a, m1, m2, b, d1, d2, t, h1, h2, c, i1, i2, e, s1, s2] =
     (if a = CHR ''-'' \<and> b = CHR ''-'' \<and> t = CHR ''T'' \<and> c = CHR '':'' \<and> e = CHR '':'' then
        (case (number 0 [y1, y2, y3, y4], number 0 [m1, m2], number 0 [d1, d2],
               number 0 [h1, h2], number 0 [i1, i2], number 0 [s1, s2]) of
           (Some y, Some m, Some d, Some hh, Some mm, Some ss) \<Rightarrow> civil_datetime y m d hh mm ss
         | _ \<Rightarrow> None)
      else None)"
| "strptime_iso _ = None"

text \<open>\<open>str.lower\<close> on strings of ASCII characters, the only ones in the concrete
  worlds: the letters A to Z are replaced.\<close>

definition ascii_lower_char :: "char \<Rightarrow> char" where
  "ascii_lower_char c =
     (case map_of (zip ''ABCDEFGHIJKLMNOPQRSTUVWXYZ'' ''abcdefghijklmnopqrstuvwxyz'') c of
        None \<Rightarrow> c
      | Some l \<Rightarrow> l)"

definition ascii_lower :: "string \<Rightarrow> string" where
  "ascii_lower s = map ascii_lower_char s"

text \<open>Response bodies: the login reply, a JSON-RPC result, the channel list of two
  channels, a one-channel programme listing, and a stream-info reply.\<close>

definition token_response :: pyval where
  "token_response = PDict [(''accessToken'', PDict [(''value'', PStr ''fresh'')])]"

definition rpc_result :: "pyval \<Rightarrow> pyval" where
  "rpc_result rows = PDict [(''id'', PStr ''1''), (''result'', PDict [(''data'', rows)])]"

definition channel_list :: pyval where
  "channel_list =
     PList [PDict [(''id'', PStr ''x''), (''title'', PStr ''Prima Cool'')],
            PDict [(''id'', PStr ''y''), (''title'', PStr ''Prima'')]]"

definition listing :: "pyval list \<Rightarrow> pyval" where
  "listing items = rpc_result (PList [PDict [(''id'', PStr ''x''), (''items'', PList items)]])"

definition play_response :: pyval where
  "play_response =
     PDict [(''streamInfos'',
             PList [PDict [(''type'', PStr ''DASH''), (''url'', PStr ''http://cdn/a_lq.mpd'')],
                    PDict [(''type'', PStr ''HLS''), (''url'', PStr ''http://cdn/a_lq.m3u8'')]])]"

text \<open>A programme broadcast on 3 July 2024 from 11:30 to 12:00 Prague time (summer
  time, UTC+2), as the guide lists it.\<close>

definition news :: "bool \<Rightarrow> (string \<times> pyval) list" where
  "news playable =
     [(''title'', PStr ''News''),
      (''programStartTime'', PStr ''2024-07-03T11:30:00+02:00''),
      (''programEndTime'', PStr ''2024-07-03T12:00:00+02:00''),
      (''isPlayable'', PBool playable),
      (''playId'', PStr ''p123'')]"

text \<open>A guide: the listing of each day number, empty where the table has no entry.\<close>

definition guide :: "(int \<times> pyval list) list \<Rightarrow> int \<Rightarrow> pyval option" where
  "guide table day =
     Some (listing (case map_of table day of None \<Rightarrow> [] | Some items \<Rightarrow> items))"

fun demo_http :: "(int \<Rightarrow> pyval option) \<Rightarrow> request list \<Rightarrow> request \<Rightarrow> pyval option" where
  "demo_http epg h (Login e p) = Some token_response"
| "demo_http epg h (ChannelList tok) = Some (rpc_result channel_list)"
| "demo_http epg h (ProgramList tok cid day) = epg day"
| "demo_http epg h (Play tok pid) = Some play_response"

text \<open>A world on 3 July 2024: 09:46:40 UTC, 11:46:40 on the local wall clock (day
  number 19907).\<close>

definition demo_world :: "(int \<Rightarrow> pyval option) \<Rightarrow> world" where
  "demo_world epg =
     \<lparr>prima_email = ''a@b.cz'', prima_password = ''pw'', has_profile = True,
      write_file = Written,
      time_now = 1720000000, dt_now = 1720007200, http = demo_http epg,
      strptime = strptime_iso, str_lower = ascii_lower\<rparr>"

definition no_credentials_world :: world where
  "no_credentials_world = (demo_world (guide []))\<lparr>prima_email := []\<rparr>"

definition read_only_world :: world where
  "read_only_world = (demo_world (guide []))\<lparr>write_file := NotOpened\<rparr>"

text \<open>States: a token file written by \<open>save_token\<close>, and no token file.\<close>

definition cached :: "int \<Rightarrow> state" where
  "cached valid_to =
     \<lparr>token_file = Some (token_record (PStr ''tok'') valid_to), requests = []\<rparr>"

definition no_cache :: state where
  "no_cache = \<lparr>token_file = None, requests = []\<rparr>"



text \<open>An item whose start time does not parse and whose end time is a number.\<close>

definition garbled :: pyval where
  "garbled = PDict [(''title'', PStr ''Bad''), (''startTime'', PStr ''soon''), (''endTime'', PInt 7)]"

text \<open>A world whose guide has nothing for the current day, an unplayable programme
  covering 11:45 in yesterday's listing, and a playable copy of it in the listing of
  the day before.\<close>

definition duplicate_world :: world where
  "duplicate_world =
     demo_world (guide [(19906, [garbled, PDict (news False)]), (19905, [PDict (news True)])])"

text \<open>A world whose guide lists the programme of 11:30 to 12:00 for the current
  day.\<close>

definition summer_world :: world where
  "summer_world = demo_world (guide [(19907, [PDict (news True)])])"

text \<open>A world whose guide lists that programme for the current day as not
  playable.\<close>

definition unplayable_world :: world where
  "unplayable_world = demo_world (guide [(19907, [PDict (news False)])])"

text \<open>A stream-info reply whose first HLS entry has an empty url.\<close>

definition two_hls_response :: pyval where
  "two_hls_response =
     PDict [(''streamInfos'',
             PList [PDict [(''type'', PStr ''HLS''), (''url'', PStr '''')],
                    PDict [(''type'', PStr ''HLS''), (''url'', PStr ''http://cdn/b_lq.m3u8'')]])]"


text \<open>A guide whose listing of the current day holds only items that cannot be read
  (a number, and a record whose times do not parse), the day before holding the
  playable programme.\<close>

definition messy_world :: world where
  "messy_world =
     demo_world (guide [(19907, [PInt 5, garbled]), (19906, [PDict (news True)])])"

section \<open>Lemmas about the model\<close>

subsection \<open>State and token cache\<close>

lemma token_file_issue [simp]: "token_file (issue r s) = token_file s"
  by (simp add: issue_def)

lemma requests_issue [simp]: "requests (issue r s) = requests s @ [r]"
  by (simp add: issue_def)

lemma requests_save_token [simp]: "requests (save_token w d s) = requests s"
  by (simp add: save_token_def split: write_outcome.splits)

lemma cached_token_record:
  "cached_token now (token_record tok v) = Inr (if now < v then Some tok else None)"
  by (simp add: cached_token_def token_record_def)

lemma cached_token_dict:
  assumes "map_of d ''token'' = Some t" and "map_of d ''valid_to'' = Some (PInt v)" and "now < v"
  shows "cached_token now (PDict d) = Inr (Some t)"
  using assms by (auto simp: cached_token_def)

lemma cached_token_PNone: "cached_token now PNone = Inr None"
  by (simp add: cached_token_def)

lemma load_token_record:
  "has_profile w \<Longrightarrow> token_file s = Some (token_record tok v) \<Longrightarrow>
   load_token w s = token_record tok v"
  by (simp add: load_token_def token_record_def)

lemma get_prima_token_cached:
  assumes "has_profile w" and "token_file s = Some (token_record tok v)" and "time_now w < v"
  shows "get_prima_token w s = (Inr tok, s)"
  using assms by (simp add: get_prima_token_def load_token_record cached_token_record)

lemma no_valid_cache_lookup:
  assumes "no_valid_cache w s"
  shows "cached_token (time_now w) (load_token w s) = Inr None"
proof (cases "has_profile w")
  case False
  then show ?thesis
    by (simp add: load_token_def cached_token_PNone)
next
  case True
  show ?thesis
  proof (cases "token_file s")
    case None
    then show ?thesis
      using True by (simp add: load_token_def cached_token_PNone)
  next
    case (Some data)
    show ?thesis
    proof (cases data)
      case (PDict d)
      have "cached_token (time_now w) (PDict d) = Inr None"
        using assms True Some PDict
        by (cases "map_of d ''token''"; cases "map_of d ''valid_to''")
          (auto simp: no_valid_cache_def cached_token_def split: pyval.splits)
      then show ?thesis
        using True Some PDict by (simp add: load_token_def)
    qed (use True Some in \<open>simp_all add: load_token_def cached_token_PNone\<close>)
  qed
qed

lemma get_prima_token_no_cache:
  assumes "no_valid_cache w s"
  shows "get_prima_token w s =
           (if prima_email w = [] \<or> prima_password w = [] then (Inr PNone, s)
            else case http w (requests s) (Login (prima_email w) (prima_password w)) of
              None \<Rightarrow> (Inr PNone, issue (Login (prima_email w) (prima_password w)) s)
            | Some data \<Rightarrow>
               (case access_token data of
                  None \<Rightarrow> (Inr PNone, issue (Login (prima_email w) (prima_password w)) s)
                | Some token \<Rightarrow>
                   (Inr token,
                    save_token w (token_record token (time_now w + 7 * 60 * 60))
                      (issue (Login (prima_email w) (prima_password w)) s))))"
  by (simp add: get_prima_token_def no_valid_cache_lookup [OF assms])

lemma access_token_cases:
  "access_token data =
     (case data of
        PDict dd \<Rightarrow>
         (case map_of dd ''accessToken'' of
            Some (PDict a) \<Rightarrow> map_of a ''value''
          | _ \<Rightarrow> None)
      | _ \<Rightarrow> None)"
  by (cases data)
    (auto simp: access_token_def split: option.splits pyval.splits sum.splits bool.splits)

subsection \<open>The inner loop\<close>

lemma check_program_dict:
  "check_program w T (PDict d) =
     (if truthy (start_str d) \<and> truthy (end_str d) then
        (case parse_time w (start_str d) of
           Inl e \<Rightarrow> Continue
         | Inr S \<Rightarrow>
            (case parse_time w (end_str d) of
               Inl e \<Rightarrow> Continue
             | Inr E \<Rightarrow> if S \<le> T \<and> T \<le> E then Return (verdict d) else Continue))
      else Continue)"
  by (simp add: check_program_def check_program_body_def parse_time_def split: sum.splits)

lemma check_program_not_dict: "\<not> is_dict p \<Longrightarrow> check_program w T p = Continue"
  by (cases p) (simp_all add: check_program_def check_program_body_def)

lemma check_program_cases:
  "check_program w T p = Continue \<or> (\<exists>d. p = PDict d \<and> check_program w T p = Return (verdict d))"
  by (cases p) (auto simp: check_program_dict check_program_not_dict split: sum.splits)

lemma covers_verdict: "covers w T (PDict d) \<Longrightarrow> check_program w T (PDict d) = Return (verdict d)"
  using check_program_cases [of w T "PDict d"] by (auto simp: covers_def)

lemma malformed_Continue: "malformed w p \<Longrightarrow> check_program w T p = Continue"
  by (cases p) (auto simp: malformed_def check_program_dict check_program_not_dict isl_def split: sum.splits)

lemma scan_programs_append:
  "scan_programs w T (xs @ ys) =
     (case scan_programs w T xs of Return r \<Rightarrow> Return r | Continue \<Rightarrow> scan_programs w T ys)"
  by (induction xs) (auto split: outcome.splits)

lemma scan_programs_none:
  "\<forall>p\<in>set xs. \<not> covers w T p \<Longrightarrow> scan_programs w T xs = Continue"
  by (induction xs) (auto simp: covers_def)

lemma scan_day_list:
  "scan_day w T off (PList items) = Inr (scan_programs w T items)"
  by (cases items) (simp_all add: scan_day_def)

lemma no_cover_scan_day:
  assumes "no_cover w T programs"
  shows "scan_day w T off programs = Inr Continue"
proof (cases programs)
  case PNone
  then show ?thesis by (simp add: scan_day_def)
next
  case (PList items)
  then have "\<forall>p\<in>set items. \<not> covers w T p"
    using assms by (simp add: no_cover_def list_all_iff)
  then show ?thesis
    using PList by (simp add: scan_day_list scan_programs_none)
qed (use assms in \<open>simp_all add: no_cover_def\<close>)

subsection \<open>The outer loop and its requests\<close>

lemma search_result_simps [simp]:
  "search_result (Inl e, s) = (Inl e, s)"
  "search_result (Inr (Return r), s) = (Inr r, s)"
  "search_result (Inr Continue, s) = (Inr PNone, s)"
  by (simp_all add: search_result_def)

lemma scan_days_append:
  "scan_days w cid T (xs @ ys) s =
     (case scan_days w cid T xs s of
        (Inr Continue, s1) \<Rightarrow> scan_days w cid T ys s1
      | r \<Rightarrow> r)"
  by (induction xs arbitrary: s) (auto split: prod.splits sum.splits outcome.splits)

lemma date_of_add_days: "date_of (t + off * 86400) = date_of t + off"
  by (simp add: date_of_def)

lemma get_epg_program_cached:
  assumes "has_profile w" and "token_file s = Some (token_record tok v)" and "time_now w < v"
    and "truthy tok"
    and "dt_min \<le> dt_now w + off * 86400" and "dt_now w + off * 86400 \<le> dt_max"
  shows "get_epg_program w cid off s =
           (Inr (case http w (requests s) (ProgramList tok cid (date_of (dt_now w) + off)) of
                   None \<Rightarrow> PNone
                 | Some data \<Rightarrow> programs_of data),
            issue (ProgramList tok cid (date_of (dt_now w) + off)) s)"
  using assms
  by (simp add: get_epg_program_def get_prima_token_cached dt_add_def date_of_add_days
      split: option.splits)

lemma get_epg_program_listing:
  assumes "has_profile w" and "token_file s = Some (token_record tok v)" and "time_now w < v"
    and "truthy tok"
    and "dt_min \<le> dt_now w + off * 86400" and "dt_now w + off * 86400 \<le> dt_max"
  shows "get_epg_program w cid off s =
           (Inr (day_listing w tok cid (requests s) off),
            issue (ProgramList tok cid (date_of (dt_now w) + off)) s)"
  using get_epg_program_cached [OF assms] by (simp add: day_listing_def)

lemma scan_days_requests:
  assumes "has_profile w" and "token_file s = Some (token_record tok v)" and "time_now w < v"
    and "truthy tok"
    and "\<forall>off\<in>set offs. dt_min \<le> dt_now w + off * 86400 \<and> dt_now w + off * 86400 \<le> dt_max"
  shows "\<exists>k\<le>length offs.
           requests (snd (scan_days w cid T offs s)) =
             requests s @ map (\<lambda>off. ProgramList tok cid (date_of (dt_now w) + off)) (take k offs)
           \<and> (fst (scan_days w cid T offs s) = Inr Continue \<longrightarrow> k = length offs)"
  using assms
proof (induction offs arbitrary: s)
  case Nil
  then show ?case by simp
next
  case (Cons off offs)
  let ?req = "ProgramList tok cid (date_of (dt_now w) + off)"
  let ?s1 = "issue ?req s"
  obtain programs where g: "get_epg_program w cid off s = (Inr programs, ?s1)"
    using get_epg_program_cached [of w s tok v off cid] Cons.prems by auto
  show ?case
  proof (cases "scan_day w T off programs")
    case (Inl e)
    then have "scan_days w cid T (off # offs) s = (Inl e, ?s1)"
      using g by simp
    then show ?thesis
      by (intro exI [of _ 1]) simp
  next
    case (Inr out)
    show ?thesis
    proof (cases out)
      case Continue
      have tf: "token_file ?s1 = Some (token_record tok v)"
        using Cons.prems(2) by simp
      obtain k where k: "k \<le> length offs"
        "requests (snd (scan_days w cid T offs ?s1)) =
           requests ?s1 @ map (\<lambda>off. ProgramList tok cid (date_of (dt_now w) + off)) (take k offs)"
        "fst (scan_days w cid T offs ?s1) = Inr Continue \<longrightarrow> k = length offs"
        using Cons.IH [OF Cons.prems(1) tf Cons.prems(3) Cons.prems(4)] Cons.prems(5) by auto
      have "scan_days w cid T (off # offs) s = scan_days w cid T offs ?s1"
        using g Inr Continue by simp
      then show ?thesis
        using k by (intro exI [of _ "Suc k"]) simp
    next
      case (Return r)
      then have "scan_days w cid T (off # offs) s = (Inr (Return r), ?s1)"
        using g Inr by simp
      then show ?thesis
        by (intro exI [of _ 1]) simp
    qed
  qed
qed

lemma quiet_days_scan:
  assumes "has_profile w" and "token_file s = Some (token_record tok v)" and "time_now w < v"
    and "truthy tok"
    and "\<forall>off\<in>set offs. dt_min \<le> dt_now w + off * 86400 \<and> dt_now w + off * 86400 \<le> dt_max"
    and "quiet_days w tok cid T (requests s) offs"
  shows "scan_days w cid T offs s =
           (Inr Continue,
            s\<lparr>requests := requests s
                 @ map (\<lambda>off. ProgramList tok cid (date_of (dt_now w) + off)) offs\<rparr>)"
  using assms
proof (induction offs arbitrary: s)
  case Nil
  then show ?case by simp
next
  case (Cons off offs)
  let ?s1 = "issue (ProgramList tok cid (date_of (dt_now w) + off)) s"
  have g: "get_epg_program w cid off s = (Inr (day_listing w tok cid (requests s) off), ?s1)"
    using Cons.prems by (intro get_epg_program_listing [where v = v]) simp_all
  have d: "scan_day w T off (day_listing w tok cid (requests s) off) = Inr Continue"
    using Cons.prems(6) by (simp add: no_cover_scan_day)
  have tf: "token_file ?s1 = Some (token_record tok v)"
    using Cons.prems(2) by simp
  have q: "quiet_days w tok cid T (requests ?s1) offs"
    using Cons.prems(6) by simp
  have r: "\<forall>off\<in>set offs. dt_min \<le> dt_now w + off * 86400 \<and> dt_now w + off * 86400 \<le> dt_max"
    using Cons.prems(5) by simp
  have "scan_days w cid T (off # offs) s = scan_days w cid T offs ?s1"
    using g d by simp
  then show ?case
    using Cons.IH [OF Cons.prems(1) tf Cons.prems(3) Cons.prems(4) r q]
    by (simp add: issue_def)
qed

lemma day_offsets_range:
  assumes "dt_min \<le> dt_now w - 7 * 86400" and "dt_now w \<le> dt_max"
  shows "\<forall>off\<in>set day_offsets. dt_min \<le> dt_now w + off * 86400 \<and> dt_now w + off * 86400 \<le> dt_max"
  using assms by (simp add: day_offsets_def)

lemma find_requests:
  "requests (snd (find_program_by_timestamp w cid ts s)) =
     (case program_time ts of
        Inl e \<Rightarrow> requests s
      | Inr T \<Rightarrow> requests (snd (scan_days w cid T day_offsets s)))"
  by (simp add: find_program_by_timestamp_def search_result_def
      split: sum.splits prod.splits outcome.splits)

lemma find_requests_prefix:
  assumes "has_profile w" and "token_file s = Some (token_record tok v)" and "time_now w < v"
    and "truthy tok"
    and "dt_min \<le> dt_now w - 7 * 86400" and "dt_now w \<le> dt_max"
  shows "\<exists>k\<le>8. requests (snd (find_program_by_timestamp w cid ts s)) =
            requests s @ map (\<lambda>off. ProgramList tok cid (date_of (dt_now w) + off))
                           (take k day_offsets)"
proof (cases "program_time ts")
  case (Inl e)
  then show ?thesis
    by (intro exI [of _ 0]) (simp add: find_requests)
next
  case (Inr T0)
  note rng = day_offsets_range [OF assms(5,6)]
  obtain k where "k \<le> length day_offsets"
    "requests (snd (scan_days w cid T0 day_offsets s)) =
       requests s @ map (\<lambda>off. ProgramList tok cid (date_of (dt_now w) + off)) (take k day_offsets)"
    using scan_days_requests [OF assms(1-4) rng, of cid T0] by blast
  then show ?thesis
    using Inr by (intro exI [of _ k]) (simp add: find_requests day_offsets_def)
qed

lemma program_time_eval: "dt_min \<le> ts \<Longrightarrow> ts + 3600 \<le> dt_max \<Longrightarrow> program_time ts = Inr (ts + 3600)"
  by (simp add: program_time_def utcfromtimestamp_def dt_add_def dt_min_def dt_max_def)

subsection \<open>Channel list, channel and stream selection\<close>

lemma get_epg_channels_cached:
  assumes "has_profile w" and "token_file s = Some (token_record tok v)" and "time_now w < v"
    and "truthy tok"
  shows "get_epg_channels w s =
           (Inr (case http w (requests s) (ChannelList tok) of
                   None \<Rightarrow> PNone
                 | Some data \<Rightarrow> channels_of data),
            issue (ChannelList tok) s)"
  using assms
  by (simp add: get_epg_channels_def get_prima_token_cached split: option.splits)

lemma catchup_steps:
  assumes "get_prima_token w s = (Inr token, s1)" and "truthy token"
    and "get_epg_channels w s1 = (Inr channels, s2)" and "truthy channels"
    and "resolve_channel w channel_id channels = Inr cid" and "truthy cid"
    and "find_program_by_timestamp w cid ts s2 = (Inr pid, s3)"
  shows "get_catchup_stream w channel_id ts s =
           (if \<not> truthy pid then (Inr (Error ProgramNotFound), s3)
            else case http w (requests s3) (Play token pid) of
              None \<Rightarrow> (Inr (Error StreamRequestError), issue (Play token pid) s3)
            | Some data \<Rightarrow> (Inr (archive_stream data), issue (Play token pid) s3))"
  using assms by (simp add: get_catchup_stream_def)

lemma find_channel_first:
  assumes "\<not> truthy acc"
    and "\<forall>ch\<in>set before. \<exists>d0 t0. ch = PDict d0 \<and> ch_title w d0 = Inr t0
           \<and> \<not> (name_matches w names t0 \<and> truthy (ch_id d0))"
    and "ch_title w d = Inr title" and "name_matches w names title" and "truthy (ch_id d)"
  shows "find_channel w names acc (before @ PDict d # after) = Inr (ch_id d)"
  using assms
proof (induction before arbitrary: acc)
  case Nil
  then show ?case by simp
next
  case (Cons ch before)
  then obtain d0 t0 where ch: "ch = PDict d0" "ch_title w d0 = Inr t0"
    "\<not> (name_matches w names t0 \<and> truthy (ch_id d0))"
    by auto
  have rest: "\<forall>ch\<in>set before. \<exists>d0 t0. ch = PDict d0 \<and> ch_title w d0 = Inr t0
           \<and> \<not> (name_matches w names t0 \<and> truthy (ch_id d0))"
    using Cons.prems(2) by simp
  show ?case
  proof (cases "name_matches w names t0")
    case True
    then have f: "\<not> truthy (ch_id d0)" using ch(3) by simp
    show ?thesis
      using ch True f Cons.IH [OF f rest Cons.prems(3,4,5)] by simp
  next
    case False
    show ?thesis
      using ch False Cons.prems(1) Cons.IH [OF Cons.prems(1) rest Cons.prems(3,4,5)] by simp
  qed
qed

lemma prefer_hls_dicts:
  assumes "\<forall>d\<in>set ds. \<exists>u. stream_url_temp d = PStr u"
  shows "prefer_hls (map PDict ds) =
           Inr (case filter (\<lambda>d. stream_type d = PStr ''HLS'' \<and> truthy (stream_url_temp d)) ds of
                  d # rest \<Rightarrow> stream_url_temp d
                | [] \<Rightarrow> PNone)"
  using assms by (induction ds) auto

lemma choose_url_dicts:
  assumes "\<forall>d\<in>set ds. \<exists>u. stream_url_temp d = PStr u" and "ds \<noteq> []"
  shows "choose_url (PList (map PDict ds)) = Inr (selected_url ds)"
proof (cases "filter (\<lambda>d. stream_type d = PStr ''HLS'' \<and> truthy (stream_url_temp d)) ds")
  case Nil
  then have p: "prefer_hls (map PDict ds) = Inr PNone"
    using prefer_hls_dicts [OF assms(1)] by simp
  obtain d0 rest where ds: "ds = d0 # rest"
    using assms(2) by (cases ds) auto
  have "first_url (PList (map PDict ds)) = Inr (dict_get d0 ''url'' PNone)"
    by (simp add: ds first_url_def)
  moreover have "selected_url ds = dict_get d0 ''url'' PNone"
    using Nil by (simp add: selected_url_def ds)
  ultimately show ?thesis
    using assms(2) by (simp add: choose_url_def p)
next
  case (Cons d rest)
  then have "d \<in> set (filter (\<lambda>d. stream_type d = PStr ''HLS'' \<and> truthy (stream_url_temp d)) ds)"
    by simp
  then have tr: "truthy (stream_url_temp d)" by simp
  have p: "prefer_hls (map PDict ds) = Inr (stream_url_temp d)"
    using prefer_hls_dicts [OF assms(1)] Cons by simp
  have "selected_url ds = stream_url_temp d"
    using Cons by (simp add: selected_url_def)
  then show ?thesis
    using tr by (simp add: choose_url_def p)
qed

lemma no_stream_not_Stream: "no_stream data \<noteq> Inr (Stream x)"
  by (auto simp: no_stream_def split: sum.splits bool.splits)

lemma archive_stream_no_infos:
  assumes "case map_of dd ''streamInfos'' of None \<Rightarrow> True | Some infos \<Rightarrow> \<not> truthy infos"
  shows "\<exists>e. archive_stream (PDict dd) = Error e"
proof -
  have "archive_stream_body (PDict dd) = no_stream (PDict dd)"
    using assms by (auto simp: archive_stream_body_def split: option.splits)
  then show ?thesis
    using no_stream_not_Stream [of "PDict dd"]
    by (cases "no_stream (PDict dd)") (auto simp: archive_stream_def intro: result.exhaust)
qed

subsection \<open>Running the concrete worlds\<close>

lemma demo_world_fields [simp]:
  "prima_email (demo_world epg) = ''a@b.cz''"
  "prima_password (demo_world epg) = ''pw''"
  "has_profile (demo_world epg) = True"
  "write_file (demo_world epg) = Written"
  "time_now (demo_world epg) = 1720000000"
  "dt_now (demo_world epg) = 1720007200"
  "http (demo_world epg) = demo_http epg"
  "strptime (demo_world epg) = strptime_iso"
  "str_lower (demo_world epg) = ascii_lower"
  by (simp_all add: demo_world_def)

lemma cached_fields [simp]:
  "token_file (cached v) = Some (token_record (PStr ''tok'') v)"
  "requests (cached v) = []"
  by (simp_all add: cached_def)

lemma result_data_rpc: "result_data (rpc_result rows) = Inr (Some rows)"
  by (simp add: result_data_def rpc_result_def)

lemma programs_of_listing [simp]: "programs_of (listing items) = PList items"
  by (simp add: programs_of_def epg_items_def listing_def result_data_rpc)

lemma channels_of_channel_list [simp]: "channels_of (rpc_result channel_list) = channel_list"
  by (simp add: channels_of_def result_data_rpc channel_list_def)

lemma access_token_response: "access_token token_response = Some (PStr ''fresh'')"
  by (simp add: access_token_def token_response_def)

lemmas iso_defs = digit_def civil_datetime_def days_in_month_def days_from_civil_def is_leap_def

lemma news_times:
  "truthy (start_str (news p))" "truthy (end_str (news p))"
  "parse_time (demo_world epg) (start_str (news p)) = Inr 1720006200"
  "parse_time (demo_world epg) (end_str (news p)) = Inr 1720008000"
  by (simp_all add: news_def start_str_def end_str_def py_or_def dict_get_def parse_time_def iso_defs)

lemma news_verdict: "verdict (news p) = (if p then PStr ''p123'' else PNone)"
  by (simp add: verdict_def item_playable_def item_play_id_def news_def dict_get_def py_or_def)

lemma news_check:
  "check_program (demo_world epg) T (PDict (news p)) =
     (if 1720006200 \<le> T \<and> T \<le> 1720008000 then Return (if p then PStr ''p123'' else PNone)
      else Continue)"
  by (simp add: check_program_dict news_times news_verdict)

lemma demo_get_epg_program:
  assumes "token_file s = Some (token_record (PStr ''tok'') 1720020000)"
    and "- 8 \<le> off" and "off \<le> 0"
  shows "get_epg_program (demo_world (guide table)) cid off s =
           (Inr (PList (case map_of table (19907 + off) of None \<Rightarrow> [] | Some items \<Rightarrow> items)),
            issue (ProgramList (PStr ''tok'') cid (19907 + off)) s)"
proof -
  have "get_epg_program (demo_world (guide table)) cid off s =
          (Inr (case http (demo_world (guide table)) (requests s)
                       (ProgramList (PStr ''tok'') cid (date_of (dt_now (demo_world (guide table))) + off)) of
                   None \<Rightarrow> PNone
                 | Some data \<Rightarrow> programs_of data),
            issue (ProgramList (PStr ''tok'') cid (date_of (dt_now (demo_world (guide table))) + off)) s)"
    using assms
    by (intro get_epg_program_cached [where v = 1720020000]) (simp_all add: dt_min_def dt_max_def)
  then show ?thesis
    by (simp add: guide_def date_of_def)
qed

lemma scan_empty_guide:
  "scan_days (demo_world (guide [])) cid T day_offsets (cached 1720020000) =
     (Inr Continue,
      \<lparr>token_file = Some (token_record (PStr ''tok'') 1720020000),
       requests = map (\<lambda>off. ProgramList (PStr ''tok'') cid (19907 + off)) day_offsets\<rparr>)"
  by (simp add: day_offsets_def demo_get_epg_program scan_day_list issue_def cached_def)

lemma garbled_malformed: "malformed (demo_world epg) garbled"
  by (simp add: malformed_def garbled_def start_str_def end_str_def py_or_def dict_get_def parse_time_def)

lemma garbled_not_covering: "\<not> covers (demo_world epg) T garbled"
  using malformed_Continue [OF garbled_malformed] by (simp add: covers_def)

lemma scan_summer_miss:
  "scan_days summer_world cid 1720003500 day_offsets (cached 1720020000) =
     (Inr Continue,
      \<lparr>token_file = Some (token_record (PStr ''tok'') 1720020000),
       requests = map (\<lambda>off. ProgramList (PStr ''tok'') cid (19907 + off)) day_offsets\<rparr>)"
  by (simp add: summer_world_def day_offsets_def demo_get_epg_program scan_day_list news_check
      issue_def cached_def)

lemma demo_get_epg_channels:
  assumes "token_file s = Some (token_record (PStr ''tok'') 1720020000)"
  shows "get_epg_channels (demo_world epg) s =
           (Inr channel_list, issue (ChannelList (PStr ''tok'')) s)"
proof -
  have "get_prima_token (demo_world epg) s = (Inr (PStr ''tok''), s)"
    using assms by (intro get_prima_token_cached [where v = 1720020000]) simp_all
  then show ?thesis
    by (simp add: get_epg_channels_def)
qed

lemma search_names_primacool: "search_names ''primacool'' = [''cool'', ''prima cool'']"
  by (simp add: search_names_def channel_name_map_def)

lemma lower_eval:
  "ascii_lower ''cool'' = ''cool''" "ascii_lower ''prima cool'' = ''prima cool''"
  "ascii_lower ''Prima Cool'' = ''prima cool''" "ascii_lower ''Prima'' = ''prima''"
  "ascii_lower ''Cool TV'' = ''cool tv''"
  by (simp_all add: ascii_lower_def ascii_lower_char_def)

lemma resolve_primacool: "resolve_channel (demo_world epg) ''primacool'' channel_list = Inr (PStr ''x'')"
  by (simp add: resolve_channel_def channel_list_def search_names_primacool ch_title_def ch_id_def
      dict_get_def name_matches_def lower_eval)

lemma scan_empty_guide_from:
  assumes "token_file s = Some (token_record (PStr ''tok'') 1720020000)"
  shows "scan_days (demo_world (guide [])) cid T day_offsets s =
     (Inr Continue,
      s\<lparr>requests := requests s @ map (\<lambda>off. ProgramList (PStr ''tok'') cid (19907 + off)) day_offsets\<rparr>)"
  using assms
  by (simp add: day_offsets_def demo_get_epg_program scan_day_list issue_def)

lemma scan_unplayable_from:
  assumes "token_file s = Some (token_record (PStr ''tok'') 1720020000)"
  shows "scan_days unplayable_world cid 1720007100 day_offsets s =
     (Inr (Return PNone), issue (ProgramList (PStr ''tok'') cid 19907) s)"
  using assms
  by (simp add: unplayable_world_def day_offsets_def demo_get_epg_program scan_day_list news_check)

lemma str_remove_eval:
  "str_remove ''_lq'' ''http://cdn/a_lq.m3u8'' = ''http://cdn/a.m3u8''"
  "str_remove ''_lq'' ''http://cdn/b_lq.m3u8'' = ''http://cdn/b.m3u8''"
  "str_remove ''_lq'' ''http://cdn/a_lq.mpd'' = ''http://cdn/a.mpd''"
  by (simp_all add: str_remove_def)


subsection \<open>The search, from the listings the provider returns\<close>

lemma verdict_expand:
  "verdict d =
     (if truthy (dict_get d ''isPlayable'' (PBool False))
         \<and> truthy (py_or (dict_get d ''playId'' PNone) (dict_get d ''id'' PNone))
      then py_or (dict_get d ''playId'' PNone) (dict_get d ''id'' PNone)
      else PNone)"
  by (simp add: verdict_def item_playable_def item_play_id_def)

lemma first_cover_scan:
  assumes "day_offsets = earlier @ off # later"
    and "scan_days w cid T earlier s = (Inr Continue, s1)"
    and "get_epg_program w cid off s1 = (Inr (PList (before @ PDict d # after)), s2)"
    and "\<forall>p\<in>set before. \<not> covers w T p"
    and "covers w T (PDict d)"
  shows "scan_days w cid T day_offsets s = (Inr (Return (verdict d)), s2)"
proof -
  have "scan_programs w T (before @ PDict d # after) = Return (verdict d)"
    using assms(4,5) by (simp add: scan_programs_append scan_programs_none covers_verdict)
  then have "scan_days w cid T (off # later) s1 = (Inr (Return (verdict d)), s2)"
    using assms(3) by (simp add: scan_day_list)
  then have "scan_days w cid T (earlier @ off # later) s = (Inr (Return (verdict d)), s2)"
    by (subst scan_days_append) (simp add: assms(2) del: scan_days.simps)
  then show ?thesis
    by (simp only: assms(1))
qed

lemma demo_program_time: "program_time 1720003500 = Inr 1720007100"
  by (simp add: program_time_eval dt_min_def dt_max_def)

lemma news_covers: "covers (demo_world epg) 1720007100 (PDict (news p))"
  by (simp add: covers_def news_check)

lemma offsets_split_range:
  assumes "dt_min \<le> dt_now w - 7 * 86400" and "dt_now w \<le> dt_max"
    and "day_offsets = earlier @ off # later"
  shows "\<forall>x\<in>set earlier. dt_min \<le> dt_now w + x * 86400 \<and> dt_now w + x * 86400 \<le> dt_max"
    and "dt_min \<le> dt_now w + off * 86400" and "dt_now w + off * 86400 \<le> dt_max"
  using day_offsets_range [OF assms(1,2)] unfolding assms(3) by auto

lemma find_first_cover_cached:
  assumes "has_profile w" and "token_file s = Some (token_record tok v)" and "time_now w < v"
    and "truthy tok"
    and "dt_min \<le> dt_now w - 7 * 86400" and "dt_now w \<le> dt_max"
    and "program_time ts = Inr T"
    and "day_offsets = earlier @ off # later"
    and "quiet_days w tok cid T (requests s) earlier"
    and "day_listing w tok cid
           (requests s @ map (\<lambda>off. ProgramList tok cid (date_of (dt_now w) + off)) earlier) off
         = PList (before @ PDict d # after)"
    and "\<forall>p\<in>set before. \<not> covers w T p"
    and "covers w T (PDict d)"
  shows "find_program_by_timestamp w cid ts s =
           (Inr (verdict d),
            s\<lparr>requests := requests s
                 @ map (\<lambda>off. ProgramList tok cid (date_of (dt_now w) + off)) (earlier @ [off])\<rparr>)"
proof -
  let ?req = "\<lambda>off. ProgramList tok cid (date_of (dt_now w) + off)"
  let ?s1 = "s\<lparr>requests := requests s @ map ?req earlier\<rparr>"
  note r = offsets_split_range [OF assms(5,6,8)]
  have e: "scan_days w cid T earlier s = (Inr Continue, ?s1)"
    by (rule quiet_days_scan [OF assms(1-4) r(1) assms(9)])
  have tf: "token_file ?s1 = Some (token_record tok v)"
    using assms(2) by simp
  have g: "get_epg_program w cid off ?s1 =
             (Inr (day_listing w tok cid (requests ?s1) off), issue (?req off) ?s1)"
    by (rule get_epg_program_listing [OF assms(1) tf assms(3,4) r(2,3)])
  have g': "get_epg_program w cid off ?s1 =
             (Inr (PList (before @ PDict d # after)), issue (?req off) ?s1)"
    using g assms(10) by simp
  have "scan_days w cid T day_offsets s = (Inr (Return (verdict d)), issue (?req off) ?s1)"
    by (rule first_cover_scan [OF assms(8) e g' assms(11,12)])
  then show ?thesis
    using assms(7) by (simp add: find_program_by_timestamp_def issue_def)
qed

lemma find_quiet_cached:
  assumes "has_profile w" and "token_file s = Some (token_record tok v)" and "time_now w < v"
    and "truthy tok"
    and "dt_min \<le> dt_now w - 7 * 86400" and "dt_now w \<le> dt_max"
    and "program_time ts = Inr T"
    and "quiet_days w tok cid T (requests s) day_offsets"
  shows "find_program_by_timestamp w cid ts s =
           (Inr PNone,
            s\<lparr>requests := requests s
                 @ map (\<lambda>off. ProgramList tok cid (date_of (dt_now w) + off)) day_offsets\<rparr>)"
  using quiet_days_scan [OF assms(1-4) day_offsets_range [OF assms(5,6)] assms(8)] assms(7)
  by (simp add: find_program_by_timestamp_def)

lemma catchup_cached_steps:
  assumes "has_profile w" and "token_file s = Some (token_record tok v)" and "time_now w < v"
    and "truthy tok"
    and "http w (requests s) (ChannelList tok) = Some cdata" and "truthy (channels_of cdata)"
    and "resolve_channel w channel_id (channels_of cdata) = Inr cid" and "truthy cid"
    and "find_program_by_timestamp w cid ts (issue (ChannelList tok) s) = (Inr pid, s3)"
  shows "get_catchup_stream w channel_id ts s =
           (if \<not> truthy pid then (Inr (Error ProgramNotFound), s3)
            else case http w (requests s3) (Play tok pid) of
              None \<Rightarrow> (Inr (Error StreamRequestError), issue (Play tok pid) s3)
            | Some data \<Rightarrow> (Inr (archive_stream data), issue (Play tok pid) s3))"
proof -
  have t: "get_prima_token w s = (Inr tok, s)"
    by (rule get_prima_token_cached [OF assms(1-3)])
  have c: "get_epg_channels w s = (Inr (channels_of cdata), issue (ChannelList tok) s)"
    using get_epg_channels_cached [OF assms(1-4)] assms(5) by simp
  show ?thesis
    by (rule catchup_steps [OF t assms(4) c assms(6-9)])
qed

lemma demo_day_listing:
  "day_listing (demo_world (guide table)) tok cid h off =
     PList (case map_of table (19907 + off) of None \<Rightarrow> [] | Some items \<Rightarrow> items)"
  by (simp add: day_listing_def guide_def date_of_def)

lemma demo_cache:
  "has_profile (demo_world epg)"
  "token_file (cached 1720020000) = Some (token_record (PStr ''tok'') 1720020000)"
  "time_now (demo_world epg) < 1720020000"
  "truthy (PStr ''tok'')"
  "dt_min \<le> dt_now (demo_world epg) - 7 * 86400"
  "dt_now (demo_world epg) \<le> dt_max"
  by (simp_all add: dt_min_def dt_max_def)

section \<open>The properties\<close>

subsection \<open>Token cache and login\<close>

text \<open>
  C4, as the code has it. If the token file holds a record with a token and an integer
  \<open>valid_to\<close> strictly greater than the current epoch time, \<open>get_prima_token\<close> returns
  that token and leaves the state as it was: no request is issued. When there is no
  valid cached token (\<open>no_valid_cache\<close>: no token file, a file that is not an object, a
  record without \<open>token\<close> or \<open>valid_to\<close>, or a record whose \<open>valid_to\<close> is an integer
  not after the current time) the cached token is never returned: with an empty email
  or password \<open>None\<close> is returned and nothing is requested; with both configured
  exactly one login request is issued, the value returned is the \<open>accessToken.value\<close>
  of its response (\<open>None\<close> when the response has none), and when the response carries
  one \<open>save_token\<close> has been called with \<open>valid_to = now + 7 * 3600\<close>, so that the
  record is in the token file on return whenever the file can be written (a failed
  write is logged and dropped).
\<close>

theorem get_prima_token_cached_or_fresh:
  "(has_profile w \<and> token_file s = Some (PDict d) \<and> map_of d ''token'' = Some t
      \<and> map_of d ''valid_to'' = Some (PInt v) \<and> time_now w < v
     \<longrightarrow> get_prima_token w s = (Inr t, s))
   \<and> (no_valid_cache w s \<and> (prima_email w = [] \<or> prima_password w = [])
     \<longrightarrow> get_prima_token w s = (Inr PNone, s))
   \<and> (no_valid_cache w s \<and> prima_email w \<noteq> [] \<and> prima_password w \<noteq> []
     \<longrightarrow> requests (snd (get_prima_token w s))
           = requests s @ [Login (prima_email w) (prima_password w)]
         \<and> fst (get_prima_token w s)
           = Inr (case http w (requests s) (Login (prima_email w) (prima_password w)) of
                    Some (PDict dd) \<Rightarrow>
                      (case map_of dd ''accessToken'' of
                         Some (PDict a) \<Rightarrow>
                           (case map_of a ''value'' of Some t' \<Rightarrow> t' | None \<Rightarrow> PNone)
                       | _ \<Rightarrow> PNone)
                  | _ \<Rightarrow> PNone)
         \<and> (\<forall>dd a t'.
               http w (requests s) (Login (prima_email w) (prima_password w)) = Some (PDict dd)
               \<and> map_of dd ''accessToken'' = Some (PDict a) \<and> map_of a ''value'' = Some t'
               \<and> has_profile w \<and> write_file w = Written
              \<longrightarrow> token_file (snd (get_prima_token w s))
                    = Some (token_record t' (time_now w + 7 * 3600))))"
proof (intro conjI impI)
  assume "has_profile w \<and> token_file s = Some (PDict d) \<and> map_of d ''token'' = Some t
      \<and> map_of d ''valid_to'' = Some (PInt v) \<and> time_now w < v"
  then show "get_prima_token w s = (Inr t, s)"
    by (simp add: get_prima_token_def load_token_def cached_token_dict)
next
  assume "no_valid_cache w s \<and> (prima_email w = [] \<or> prima_password w = [])"
  then show "get_prima_token w s = (Inr PNone, s)"
    by (auto simp: get_prima_token_no_cache)
next
  assume a: "no_valid_cache w s \<and> prima_email w \<noteq> [] \<and> prima_password w \<noteq> []"
  then have g: "get_prima_token w s =
           (case http w (requests s) (Login (prima_email w) (prima_password w)) of
              None \<Rightarrow> (Inr PNone, issue (Login (prima_email w) (prima_password w)) s)
            | Some data \<Rightarrow>
               (case access_token data of
                  None \<Rightarrow> (Inr PNone, issue (Login (prima_email w) (prima_password w)) s)
                | Some token \<Rightarrow>
                   (Inr token,
                    save_token w (token_record token (time_now w + 7 * 60 * 60))
                      (issue (Login (prima_email w) (prima_password w)) s))))"
    by (simp add: get_prima_token_no_cache)
  show "requests (snd (get_prima_token w s))
           = requests s @ [Login (prima_email w) (prima_password w)]"
    by (simp add: g split: option.splits)
  show "fst (get_prima_token w s)
           = Inr (case http w (requests s) (Login (prima_email w) (prima_password w)) of
                    Some (PDict dd) \<Rightarrow>
                      (case map_of dd ''accessToken'' of
                         Some (PDict a) \<Rightarrow>
                           (case map_of a ''value'' of Some t' \<Rightarrow> t' | None \<Rightarrow> PNone)
                       | _ \<Rightarrow> PNone)
                  | _ \<Rightarrow> PNone)"
    by (simp add: g access_token_cases split: option.splits pyval.splits)
  show "\<forall>dd a t'.
               http w (requests s) (Login (prima_email w) (prima_password w)) = Some (PDict dd)
               \<and> map_of dd ''accessToken'' = Some (PDict a) \<and> map_of a ''value'' = Some t'
               \<and> has_profile w \<and> write_file w = Written
              \<longrightarrow> token_file (snd (get_prima_token w s))
                    = Some (token_record t' (time_now w + 7 * 3600))"
    by (simp add: g access_token_cases save_token_def)
qed

theorem get_prima_token_cached_or_fresh_witness:
  "get_prima_token (demo_world (guide [])) (cached 1720020000)
     = (Inr (PStr ''tok''), cached 1720020000)
   \<and> no_valid_cache (demo_world (guide [])) (cached 1719000000)
   \<and> get_prima_token (demo_world (guide [])) (cached 1719000000)
     = (Inr (PStr ''fresh''),
        \<lparr>token_file = Some (token_record (PStr ''fresh'') 1720025200),
         requests = [Login ''a@b.cz'' ''pw'']\<rparr>)
   \<and> no_valid_cache no_credentials_world no_cache
   \<and> get_prima_token no_credentials_world no_cache = (Inr PNone, no_cache)"
proof -
  let ?w = "demo_world (guide [])"
  let ?old = "cached 1719000000"
  have a: "has_profile ?w \<and> token_file (cached 1720020000)
             = Some (PDict [(''token'', PStr ''tok''), (''valid_to'', PInt 1720020000)])
           \<and> map_of [(''token'', PStr ''tok''), (''valid_to'', PInt 1720020000)] ''token''
             = Some (PStr ''tok'')
           \<and> map_of [(''token'', PStr ''tok''), (''valid_to'', PInt 1720020000)] ''valid_to''
             = Some (PInt 1720020000)
           \<and> time_now ?w < 1720020000"
    by (simp add: token_record_def)
  have n: "no_valid_cache ?w ?old"
    by (simp add: no_valid_cache_def token_record_def)
  have b: "no_valid_cache ?w ?old \<and> prima_email ?w \<noteq> [] \<and> prima_password ?w \<noteq> []"
    using n by simp
  have m: "no_valid_cache no_credentials_world no_cache"
    by (simp add: no_valid_cache_def no_cache_def)
  have c: "no_valid_cache no_credentials_world no_cache
           \<and> (prima_email no_credentials_world = [] \<or> prima_password no_credentials_world = [])"
    using m by (simp add: no_credentials_world_def)
  have 1: "get_prima_token ?w (cached 1720020000) = (Inr (PStr ''tok''), cached 1720020000)"
    using get_prima_token_cached_or_fresh
      [of ?w "cached 1720020000" "[(''token'', PStr ''tok''), (''valid_to'', PInt 1720020000)]"
          "PStr ''tok''" 1720020000] a
    by blast
  have 2: "requests (snd (get_prima_token ?w ?old))
             = requests ?old @ [Login (prima_email ?w) (prima_password ?w)]
         \<and> fst (get_prima_token ?w ?old) = Inr (PStr ''fresh'')
         \<and> token_file (snd (get_prima_token ?w ?old))
             = Some (token_record (PStr ''fresh'') (time_now ?w + 7 * 3600))"
    using get_prima_token_cached_or_fresh [of ?w ?old, THEN conjunct2, THEN conjunct2, THEN mp, OF b]
    by (simp add: token_response_def)
  have 3: "get_prima_token no_credentials_world no_cache = (Inr PNone, no_cache)"
    using get_prima_token_cached_or_fresh [of no_credentials_world no_cache] c
    by blast
  have "get_prima_token ?w ?old
     = (Inr (PStr ''fresh''),
        \<lparr>token_file = Some (token_record (PStr ''fresh'') 1720025200),
         requests = [Login ''a@b.cz'' ''pw'']\<rparr>)"
    using 2 by (cases "get_prima_token ?w ?old") (auto intro: state.equality)
  then show ?thesis
    using 1 3 n m by simp
qed

text \<open>
  C4 as stated fails where the token file cannot be written: the login succeeds, its
  token is returned, and no record has been persisted.
\<close>

theorem token_not_persisted_counterexample:
  "no_valid_cache read_only_world no_cache
   \<and> fst (get_prima_token read_only_world no_cache) = Inr (PStr ''fresh'')
   \<and> token_file (snd (get_prima_token read_only_world no_cache)) = None"
  by (simp add: read_only_world_def get_prima_token_def load_token_def no_cache_def
      no_valid_cache_def cached_token_PNone access_token_response save_token_def issue_def)




subsection \<open>The search in the programme guide\<close>

text \<open>
  C6. Interval matching is inclusive at both ends: an item whose start and end strings
  are present and parse to \<open>S\<close> and \<open>E\<close> is a match for the instant \<open>T\<close> exactly when
  \<open>S \<le> T \<le> E\<close>; so \<open>T = S\<close> and \<open>T = E\<close> both match.
\<close>

theorem interval_match_inclusive:
  assumes "truthy (start_str d)" and "truthy (end_str d)"
    and "parse_time w (start_str d) = Inr S" and "parse_time w (end_str d) = Inr E"
  shows "covers w T (PDict d) = (S \<le> T \<and> T \<le> E)"
  using assms by (simp add: covers_def check_program_dict)

theorem interval_match_inclusive_witness:
  "truthy (start_str (news True)) \<and> truthy (end_str (news True))
   \<and> parse_time (demo_world (guide [])) (start_str (news True)) = Inr 1720006200
   \<and> parse_time (demo_world (guide [])) (end_str (news True)) = Inr 1720008000
   \<and> covers (demo_world (guide [])) 1720006200 (PDict (news True))
   \<and> covers (demo_world (guide [])) 1720008000 (PDict (news True))
   \<and> \<not> covers (demo_world (guide [])) 1720006199 (PDict (news True))
   \<and> \<not> covers (demo_world (guide [])) 1720008001 (PDict (news True))"
proof -
  have h: "truthy (start_str (news True))" "truthy (end_str (news True))"
    "parse_time (demo_world (guide [])) (start_str (news True)) = Inr 1720006200"
    "parse_time (demo_world (guide [])) (end_str (news True)) = Inr 1720008000"
    by (rule news_times)+
  note m = interval_match_inclusive [OF h]
  show ?thesis
    using h m [of 1720006200] m [of 1720008000] m [of 1720006199] m [of 1720008001] by simp
qed

text \<open>
  C10. An item that is not a dict, that has no start or end time under either key, or
  whose times do not parse, raises nothing out of the search and does not end it. When
  the listing of day \<open>off\<close> contains such an item, the pass over that day gives what
  the pass over the other items of the listing gives; and when the days before \<open>off\<close>
  gave no match, \<open>find_program_by_timestamp\<close> returns what the other items of that
  listing decide, and goes on with the remaining days when they decide nothing.
\<close>

theorem malformed_items_skipped:
  assumes "malformed w program"
    and "get_epg_program w cid off s1 = (Inr (PList (before @ program # after)), s2)"
  shows "scan_days w cid T (off # later) s1 =
           (case scan_programs w T (before @ after) of
              Return r \<Rightarrow> (Inr (Return r), s2)
            | Continue \<Rightarrow> scan_days w cid T later s2)
       \<and> (program_time ts = Inr T \<and> day_offsets = earlier @ off # later
            \<and> scan_days w cid T earlier s = (Inr Continue, s1)
          \<longrightarrow> find_program_by_timestamp w cid ts s =
                (case scan_programs w T (before @ after) of
                   Return r \<Rightarrow> (Inr r, s2)
                 | Continue \<Rightarrow> search_result (scan_days w cid T later s2)))"
proof (intro conjI impI)
  show day: "scan_days w cid T (off # later) s1 =
           (case scan_programs w T (before @ after) of
              Return r \<Rightarrow> (Inr (Return r), s2)
            | Continue \<Rightarrow> scan_days w cid T later s2)"
    using assms
    by (simp add: scan_day_list scan_programs_append malformed_Continue split: outcome.splits)
  assume a: "program_time ts = Inr T \<and> day_offsets = earlier @ off # later
            \<and> scan_days w cid T earlier s = (Inr Continue, s1)"
  have "scan_days w cid T (earlier @ off # later) s = scan_days w cid T (off # later) s1"
    using a by (subst scan_days_append) (simp del: scan_days.simps)
  then have "scan_days w cid T day_offsets s =
           (case scan_programs w T (before @ after) of
              Return r \<Rightarrow> (Inr (Return r), s2)
            | Continue \<Rightarrow> scan_days w cid T later s2)"
    using a day by (simp del: scan_days.simps)
  then show "find_program_by_timestamp w cid ts s =
                (case scan_programs w T (before @ after) of
                   Return r \<Rightarrow> (Inr r, s2)
                 | Continue \<Rightarrow> search_result (scan_days w cid T later s2))"
    using a by (simp add: find_program_by_timestamp_def split: outcome.splits)
qed

theorem malformed_items_skipped_witness:
  "malformed messy_world garbled
   \<and> get_epg_program messy_world (PStr ''x'') 0 (cached 1720020000)
       = (Inr (PList ([PInt 5] @ garbled # [])),
          \<lparr>token_file = Some (token_record (PStr ''tok'') 1720020000),
           requests = [ProgramList (PStr ''tok'') (PStr ''x'') 19907]\<rparr>)
   \<and> program_time 1720003500 = Inr 1720007100
   \<and> day_offsets = [] @ 0 # [- 1, - 2, - 3, - 4, - 5, - 6, - 7]
   \<and> find_program_by_timestamp messy_world (PStr ''x'') 1720003500 (cached 1720020000)
       = (Inr (PStr ''p123''),
          \<lparr>token_file = Some (token_record (PStr ''tok'') 1720020000),
           requests = [ProgramList (PStr ''tok'') (PStr ''x'') 19907,
                       ProgramList (PStr ''tok'') (PStr ''x'') 19906]\<rparr>)"
proof -
  let ?s1 = "\<lparr>token_file = Some (token_record (PStr ''tok'') 1720020000),
           requests = [ProgramList (PStr ''tok'') (PStr ''x'') 19907]\<rparr>"
  have m: "malformed messy_world garbled"
    by (simp add: messy_world_def garbled_malformed)
  have g: "get_epg_program messy_world (PStr ''x'') 0 (cached 1720020000)
       = (Inr (PList ([PInt 5] @ garbled # [])), ?s1)"
    by (simp add: messy_world_def demo_get_epg_program issue_def cached_def)
  note t = demo_program_time
  have o: "day_offsets = [] @ 0 # [- 1, - 2, - 3, - 4, - 5, - 6, - 7]"
    by (simp add: day_offsets_def)
  have e: "scan_days messy_world (PStr ''x'') 1720007100 [] (cached 1720020000)
       = (Inr Continue, cached 1720020000)"
    by simp
  have p: "scan_programs messy_world 1720007100 ([PInt 5] @ []) = Continue"
    by (simp add: check_program_not_dict)
  have l: "scan_days messy_world (PStr ''x'') 1720007100 [- 1, - 2, - 3, - 4, - 5, - 6, - 7] ?s1
       = (Inr (Return (PStr ''p123'')),
          \<lparr>token_file = Some (token_record (PStr ''tok'') 1720020000),
           requests = [ProgramList (PStr ''tok'') (PStr ''x'') 19907,
                       ProgramList (PStr ''tok'') (PStr ''x'') 19906]\<rparr>)"
    by (simp add: messy_world_def demo_get_epg_program scan_day_list news_check issue_def)
  note f = malformed_items_skipped [OF m g, THEN conjunct2, THEN mp, OF conjI [OF t conjI [OF o e]]]
  have "find_program_by_timestamp messy_world (PStr ''x'') 1720003500 (cached 1720020000)
      = search_result
          (scan_days messy_world (PStr ''x'') 1720007100 [- 1, - 2, - 3, - 4, - 5, - 6, - 7] ?s1)"
    using f unfolding p by simp
  then have "find_program_by_timestamp messy_world (PStr ''x'') 1720003500 (cached 1720020000)
      = (Inr (PStr ''p123''),
          \<lparr>token_file = Some (token_record (PStr ''tok'') 1720020000),
           requests = [ProgramList (PStr ''tok'') (PStr ''x'') 19907,
                       ProgramList (PStr ''tok'') (PStr ''x'') 19906]\<rparr>)"
    unfolding l by simp
  then show ?thesis
    using m g t o by simp
qed

text \<open>
  C7. When the days before \<open>off\<close> gave no match and the listing of day \<open>off\<close>
  has a first covering item, \<open>find_program_by_timestamp\<close> returns at once: the
  item's \<open>playId\<close> (its \<open>id\<close> when it has no \<open>playId\<close>) when \<open>isPlayable\<close> is true
  and the item has one, \<open>None\<close> otherwise. The final state is the one right after the
  fetch of day \<open>off\<close>, so no later day offset is fetched, whatever the listings of the
  later days hold.
\<close>

theorem first_cover_stops_scan:
  assumes "program_time ts = Inr T"
    and "day_offsets = earlier @ off # later"
    and "scan_days w cid T earlier s = (Inr Continue, s1)"
    and "get_epg_program w cid off s1 = (Inr (PList (before @ PDict d # after)), s2)"
    and "\<forall>p\<in>set before. \<not> covers w T p"
    and "covers w T (PDict d)"
  shows "find_program_by_timestamp w cid ts s =
           (Inr (if truthy (dict_get d ''isPlayable'' (PBool False))
                    \<and> truthy (py_or (dict_get d ''playId'' PNone) (dict_get d ''id'' PNone))
                 then py_or (dict_get d ''playId'' PNone) (dict_get d ''id'' PNone)
                 else PNone),
            s2)"
  using first_cover_scan [OF assms(2-6)] assms(1)
  by (simp add: find_program_by_timestamp_def verdict_expand)

theorem first_cover_stops_scan_witness:
  "program_time 1720003500 = Inr 1720007100
   \<and> day_offsets = [0] @ (- 1) # [- 2, - 3, - 4, - 5, - 6, - 7]
   \<and> scan_days duplicate_world (PStr ''x'') 1720007100 [0] (cached 1720020000)
       = (Inr Continue,
          \<lparr>token_file = Some (token_record (PStr ''tok'') 1720020000),
           requests = [ProgramList (PStr ''tok'') (PStr ''x'') 19907]\<rparr>)
   \<and> get_epg_program duplicate_world (PStr ''x'') (- 1)
         \<lparr>token_file = Some (token_record (PStr ''tok'') 1720020000),
          requests = [ProgramList (PStr ''tok'') (PStr ''x'') 19907]\<rparr>
       = (Inr (PList ([garbled] @ PDict (news False) # [])),
          \<lparr>token_file = Some (token_record (PStr ''tok'') 1720020000),
           requests = [ProgramList (PStr ''tok'') (PStr ''x'') 19907,
                       ProgramList (PStr ''tok'') (PStr ''x'') 19906]\<rparr>)
   \<and> \<not> covers duplicate_world 1720007100 garbled
   \<and> covers duplicate_world 1720007100 (PDict (news False))
   \<and> find_program_by_timestamp duplicate_world (PStr ''x'') 1720003500 (cached 1720020000)
       = (Inr PNone,
          \<lparr>token_file = Some (token_record (PStr ''tok'') 1720020000),
           requests = [ProgramList (PStr ''tok'') (PStr ''x'') 19907,
                       ProgramList (PStr ''tok'') (PStr ''x'') 19906]\<rparr>)
   \<and> day_offsets = [] @ 0 # [- 1, - 2, - 3, - 4, - 5, - 6, - 7]
   \<and> get_epg_program summer_world (PStr ''x'') 0 (cached 1720020000)
       = (Inr (PList ([] @ PDict (news True) # [])),
          \<lparr>token_file = Some (token_record (PStr ''tok'') 1720020000),
           requests = [ProgramList (PStr ''tok'') (PStr ''x'') 19907]\<rparr>)
   \<and> covers summer_world 1720007100 (PDict (news True))
   \<and> find_program_by_timestamp summer_world (PStr ''x'') 1720003500 (cached 1720020000)
       = (Inr (PStr ''p123''),
          \<lparr>token_file = Some (token_record (PStr ''tok'') 1720020000),
           requests = [ProgramList (PStr ''tok'') (PStr ''x'') 19907]\<rparr>)"
proof -
  let ?s1 = "\<lparr>token_file = Some (token_record (PStr ''tok'') 1720020000),
           requests = [ProgramList (PStr ''tok'') (PStr ''x'') 19907]\<rparr>"
  let ?s2 = "\<lparr>token_file = Some (token_record (PStr ''tok'') 1720020000),
           requests = [ProgramList (PStr ''tok'') (PStr ''x'') 19907,
                       ProgramList (PStr ''tok'') (PStr ''x'') 19906]\<rparr>"
  note t = demo_program_time
  have o: "day_offsets = [0] @ (- 1) # [- 2, - 3, - 4, - 5, - 6, - 7]"
    by (simp add: day_offsets_def)
  have e: "scan_days duplicate_world (PStr ''x'') 1720007100 [0] (cached 1720020000)
       = (Inr Continue, ?s1)"
    by (simp add: duplicate_world_def demo_get_epg_program scan_day_def issue_def cached_def)
  have g: "get_epg_program duplicate_world (PStr ''x'') (- 1) ?s1
       = (Inr (PList ([garbled] @ PDict (news False) # [])), ?s2)"
    by (simp add: duplicate_world_def demo_get_epg_program issue_def)
  have b: "\<forall>p\<in>set [garbled]. \<not> covers duplicate_world 1720007100 p"
    by (simp add: duplicate_world_def garbled_not_covering)
  have c: "covers duplicate_world 1720007100 (PDict (news False))"
    by (simp add: duplicate_world_def news_covers)
  have o': "day_offsets = [] @ 0 # [- 1, - 2, - 3, - 4, - 5, - 6, - 7]"
    by (simp add: day_offsets_def)
  have e': "scan_days summer_world (PStr ''x'') 1720007100 [] (cached 1720020000)
       = (Inr Continue, cached 1720020000)"
    by simp
  have g': "get_epg_program summer_world (PStr ''x'') 0 (cached 1720020000)
       = (Inr (PList ([] @ PDict (news True) # [])), ?s1)"
    by (simp add: summer_world_def demo_get_epg_program issue_def cached_def)
  have b': "\<forall>p\<in>set []. \<not> covers summer_world 1720007100 p"
    by simp
  have c': "covers summer_world 1720007100 (PDict (news True))"
    by (simp add: summer_world_def news_covers)
  show ?thesis
    using t o e g b c first_cover_stops_scan [OF t o e g b c]
      o' g' c' first_cover_stops_scan [OF t o' e' g' b' c']
    by (simp add: news_def dict_get_def py_or_def)
qed

text \<open>
  C3, as the code has it. With a valid cached token, \<open>find_program_by_timestamp\<close>
  requests the listings of day offsets 0, -1, ..., -7 in this order, and each offset is
  taken from the current local date (\<open>datetime.now()\<close> in \<open>get_epg_program\<close>), not from
  the date of the target instant. Day offset -8 is never requested. When the listing of
  day \<open>off\<close> is the first one with a covering programme, the requests issued are those
  of the offsets down to \<open>off\<close> and no more; when none of the eight listings has a
  covering programme the result is \<open>None\<close> after exactly these eight requests.
\<close>

theorem backward_scan_dates:
  assumes "has_profile w" and "token_file s = Some (token_record tok v)" and "time_now w < v"
    and "truthy tok"
    and "dt_min \<le> dt_now w - 7 * 86400" and "dt_now w \<le> dt_max"
  shows "(\<exists>k\<le>8. requests (snd (find_program_by_timestamp w cid ts s)) =
            requests s @ map (\<lambda>off. ProgramList tok cid (date_of (dt_now w) + off))
                           (take k day_offsets))
       \<and> ProgramList tok cid (date_of (dt_now w) - 8)
            \<notin> set (drop (length (requests s))
                       (requests (snd (find_program_by_timestamp w cid ts s))))
       \<and> (program_time ts = Inr T \<and> scan_days w cid T day_offsets s = (Inr Continue, s')
          \<longrightarrow> find_program_by_timestamp w cid ts s = (Inr PNone, s')
             \<and> requests s' =
                 requests s @ map (\<lambda>off. ProgramList tok cid (date_of (dt_now w) + off))
                                day_offsets)
       \<and> (program_time ts = Inr T \<and> day_offsets = earlier @ off # later
            \<and> quiet_days w tok cid T (requests s) earlier
            \<and> day_listing w tok cid
                 (requests s
                    @ map (\<lambda>off. ProgramList tok cid (date_of (dt_now w) + off)) earlier) off
               = PList (before @ PDict d # after)
            \<and> (\<forall>p\<in>set before. \<not> covers w T p) \<and> covers w T (PDict d)
          \<longrightarrow> requests (snd (find_program_by_timestamp w cid ts s)) =
                requests s @ map (\<lambda>off. ProgramList tok cid (date_of (dt_now w) + off))
                               (earlier @ [off]))
       \<and> (program_time ts = Inr T \<and> quiet_days w tok cid T (requests s) day_offsets
          \<longrightarrow> find_program_by_timestamp w cid ts s =
                (Inr PNone,
                 s\<lparr>requests := requests s
                      @ map (\<lambda>off. ProgramList tok cid (date_of (dt_now w) + off))
                          day_offsets\<rparr>))"
proof (intro conjI impI)
  show "\<exists>k\<le>8. requests (snd (find_program_by_timestamp w cid ts s)) =
            requests s @ map (\<lambda>off. ProgramList tok cid (date_of (dt_now w) + off))
                           (take k day_offsets)"
    by (rule find_requests_prefix [OF assms])
next
  obtain k where k: "requests (snd (find_program_by_timestamp w cid ts s)) =
            requests s @ map (\<lambda>off. ProgramList tok cid (date_of (dt_now w) + off))
                           (take k day_offsets)"
    using find_requests_prefix [OF assms, of cid ts] by blast
  have "- 8 \<notin> set (take k day_offsets)"
    using set_take_subset [of k day_offsets] by (auto simp: day_offsets_def)
  then show "ProgramList tok cid (date_of (dt_now w) - 8)
            \<notin> set (drop (length (requests s))
                       (requests (snd (find_program_by_timestamp w cid ts s))))"
    by (auto simp: k)
next
  assume a: "program_time ts = Inr T \<and> scan_days w cid T day_offsets s = (Inr Continue, s')"
  then show "find_program_by_timestamp w cid ts s = (Inr PNone, s')"
    by (simp add: find_program_by_timestamp_def)
  note rng = day_offsets_range [OF assms(5,6)]
  obtain k where "k \<le> length day_offsets"
    "requests (snd (scan_days w cid T day_offsets s)) =
       requests s @ map (\<lambda>off. ProgramList tok cid (date_of (dt_now w) + off)) (take k day_offsets)"
    "fst (scan_days w cid T day_offsets s) = Inr Continue \<longrightarrow> k = length day_offsets"
    using scan_days_requests [OF assms(1-4) rng, of cid T] by blast
  then show "requests s' =
      requests s @ map (\<lambda>off. ProgramList tok cid (date_of (dt_now w) + off)) day_offsets"
    using a by simp
next
  assume a: "program_time ts = Inr T \<and> day_offsets = earlier @ off # later
            \<and> quiet_days w tok cid T (requests s) earlier
            \<and> day_listing w tok cid
                 (requests s
                    @ map (\<lambda>off. ProgramList tok cid (date_of (dt_now w) + off)) earlier) off
               = PList (before @ PDict d # after)
            \<and> (\<forall>p\<in>set before. \<not> covers w T p) \<and> covers w T (PDict d)"
  have "find_program_by_timestamp w cid ts s =
           (Inr (verdict d),
            s\<lparr>requests := requests s
                 @ map (\<lambda>off. ProgramList tok cid (date_of (dt_now w) + off)) (earlier @ [off])\<rparr>)"
    using a by (intro find_first_cover_cached [OF assms]) blast+
  then show "requests (snd (find_program_by_timestamp w cid ts s)) =
                requests s @ map (\<lambda>off. ProgramList tok cid (date_of (dt_now w) + off))
                               (earlier @ [off])"
    by simp
next
  assume a: "program_time ts = Inr T \<and> quiet_days w tok cid T (requests s) day_offsets"
  then show "find_program_by_timestamp w cid ts s =
                (Inr PNone,
                 s\<lparr>requests := requests s
                      @ map (\<lambda>off. ProgramList tok cid (date_of (dt_now w) + off))
                          day_offsets\<rparr>)"
    by (intro find_quiet_cached [OF assms]) blast+
qed

theorem backward_scan_dates_witness:
  "has_profile (demo_world (guide []))
   \<and> token_file (cached 1720020000) = Some (token_record (PStr ''tok'') 1720020000)
   \<and> time_now (demo_world (guide [])) < 1720020000
   \<and> truthy (PStr ''tok'')
   \<and> dt_min \<le> dt_now (demo_world (guide [])) - 7 * 86400
   \<and> dt_now (demo_world (guide [])) \<le> dt_max
   \<and> program_time 1720003500 = Inr 1720007100
   \<and> quiet_days (demo_world (guide [])) (PStr ''tok'') (PStr ''x'') 1720007100
        (requests (cached 1720020000)) day_offsets
   \<and> find_program_by_timestamp (demo_world (guide [])) (PStr ''x'') 1720003500 (cached 1720020000)
       = (Inr PNone,
          \<lparr>token_file = Some (token_record (PStr ''tok'') 1720020000),
           requests =
             [ProgramList (PStr ''tok'') (PStr ''x'') 19907, ProgramList (PStr ''tok'') (PStr ''x'') 19906,
              ProgramList (PStr ''tok'') (PStr ''x'') 19905, ProgramList (PStr ''tok'') (PStr ''x'') 19904,
              ProgramList (PStr ''tok'') (PStr ''x'') 19903, ProgramList (PStr ''tok'') (PStr ''x'') 19902,
              ProgramList (PStr ''tok'') (PStr ''x'') 19901, ProgramList (PStr ''tok'') (PStr ''x'') 19900]\<rparr>)
   \<and> day_offsets = [0] @ (- 1) # [- 2, - 3, - 4, - 5, - 6, - 7]
   \<and> quiet_days duplicate_world (PStr ''tok'') (PStr ''x'') 1720007100
        (requests (cached 1720020000)) [0]
   \<and> day_listing duplicate_world (PStr ''tok'') (PStr ''x'')
        [ProgramList (PStr ''tok'') (PStr ''x'') 19907] (- 1)
       = PList ([garbled] @ PDict (news False) # [])
   \<and> \<not> covers duplicate_world 1720007100 garbled
   \<and> covers duplicate_world 1720007100 (PDict (news False))
   \<and> requests (snd (find_program_by_timestamp duplicate_world (PStr ''x'') 1720003500
                      (cached 1720020000)))
       = [ProgramList (PStr ''tok'') (PStr ''x'') 19907, ProgramList (PStr ''tok'') (PStr ''x'') 19906]"
proof -
  let ?w = "demo_world (guide [])"
  let ?tok = "PStr ''tok''"
  let ?cid = "PStr ''x''"
  note t = demo_program_time
  have q: "quiet_days ?w ?tok ?cid 1720007100 (requests (cached 1720020000)) day_offsets"
    by (simp add: day_offsets_def demo_day_listing no_cover_def)
  have o: "day_offsets = [0] @ (- 1) # [- 2, - 3, - 4, - 5, - 6, - 7]"
    by (simp add: day_offsets_def)
  have q1: "quiet_days duplicate_world ?tok ?cid 1720007100 (requests (cached 1720020000)) [0]"
    by (simp add: duplicate_world_def demo_day_listing no_cover_def)
  have l: "day_listing duplicate_world ?tok ?cid
             (requests (cached 1720020000)
                @ map (\<lambda>off. ProgramList ?tok ?cid (date_of (dt_now duplicate_world) + off)) [0])
             (- 1)
       = PList ([garbled] @ PDict (news False) # [])"
    by (simp add: duplicate_world_def demo_day_listing)
  have b: "\<forall>p\<in>set [garbled]. \<not> covers duplicate_world 1720007100 p"
    by (simp add: duplicate_world_def garbled_not_covering)
  have c: "covers duplicate_world 1720007100 (PDict (news False))"
    by (simp add: duplicate_world_def news_covers)
  have hA: "has_profile ?w"
    "token_file (cached 1720020000) = Some (token_record (PStr ''tok'') 1720020000)"
    "time_now ?w < 1720020000" "truthy ?tok"
    "dt_min \<le> dt_now ?w - 7 * 86400" "dt_now ?w \<le> dt_max"
    by (rule demo_cache)+
  have hB: "has_profile duplicate_world"
    "token_file (cached 1720020000) = Some (token_record (PStr ''tok'') 1720020000)"
    "time_now duplicate_world < 1720020000" "truthy ?tok"
    "dt_min \<le> dt_now duplicate_world - 7 * 86400" "dt_now duplicate_world \<le> dt_max"
    unfolding duplicate_world_def by (rule demo_cache)+
  note A = backward_scan_dates [OF hA, where ts = 1720003500 and T = 1720007100 and cid = ?cid]
  note B = backward_scan_dates [OF hB, where ts = 1720003500 and T = 1720007100 and cid = ?cid]
  have 1: "find_program_by_timestamp ?w ?cid 1720003500 (cached 1720020000) =
        (Inr PNone,
         (cached 1720020000)\<lparr>requests := requests (cached 1720020000)
              @ map (\<lambda>off. ProgramList ?tok ?cid (date_of (dt_now ?w) + off)) day_offsets\<rparr>)"
    using A t q by blast
  have 2: "requests (snd (find_program_by_timestamp duplicate_world ?cid 1720003500 (cached 1720020000))) =
        requests (cached 1720020000)
          @ map (\<lambda>off. ProgramList ?tok ?cid (date_of (dt_now duplicate_world) + off)) ([0] @ [- 1])"
    using B t o q1 l b c by blast
  have lq: "day_listing duplicate_world ?tok ?cid [ProgramList ?tok ?cid 19907] (- 1)
       = PList ([garbled] @ PDict (news False) # [])"
    by (simp add: duplicate_world_def demo_day_listing)
  have f1: "find_program_by_timestamp ?w ?cid 1720003500 (cached 1720020000)
       = (Inr PNone,
          \<lparr>token_file = Some (token_record (PStr ''tok'') 1720020000),
           requests =
             [ProgramList ?tok ?cid 19907, ProgramList ?tok ?cid 19906,
              ProgramList ?tok ?cid 19905, ProgramList ?tok ?cid 19904,
              ProgramList ?tok ?cid 19903, ProgramList ?tok ?cid 19902,
              ProgramList ?tok ?cid 19901, ProgramList ?tok ?cid 19900]\<rparr>)"
    unfolding 1 by (simp add: date_of_def day_offsets_def cached_def)
  have f2: "requests (snd (find_program_by_timestamp duplicate_world ?cid 1720003500
                      (cached 1720020000)))
       = [ProgramList ?tok ?cid 19907, ProgramList ?tok ?cid 19906]"
    unfolding 2 by (simp add: date_of_def duplicate_world_def)
  show ?thesis
    using hA t q o q1 lq b c f1 f2 by simp
qed

text \<open>
  C3 as stated fails for a target instant on another day than today: on 3 July 2024
  (day 19907) a search for 20 June 2024, 10:00 UTC (local day 19894) requests the days
  19907 down to 19900, none of them counted from the target's date.
\<close>

theorem scan_dates_counterexample:
  "program_time 1718877600 = Inr 1718881200
   \<and> date_of 1718881200 = 19894
   \<and> date_of (dt_now (demo_world (guide []))) = 19907
   \<and> requests (snd (find_program_by_timestamp (demo_world (guide [])) (PStr ''x'') 1718877600
                      (cached 1720020000)))
       = [ProgramList (PStr ''tok'') (PStr ''x'') 19907, ProgramList (PStr ''tok'') (PStr ''x'') 19906,
          ProgramList (PStr ''tok'') (PStr ''x'') 19905, ProgramList (PStr ''tok'') (PStr ''x'') 19904,
          ProgramList (PStr ''tok'') (PStr ''x'') 19903, ProgramList (PStr ''tok'') (PStr ''x'') 19902,
          ProgramList (PStr ''tok'') (PStr ''x'') 19901, ProgramList (PStr ''tok'') (PStr ''x'') 19900]"
proof -
  have t: "program_time 1718877600 = Inr 1718881200"
    by (simp add: program_time_eval dt_min_def dt_max_def)
  have "requests (snd (find_program_by_timestamp (demo_world (guide [])) (PStr ''x'') 1718877600
                      (cached 1720020000)))
       = map (\<lambda>off. ProgramList (PStr ''tok'') (PStr ''x'') (19907 + off)) day_offsets"
    using t by (simp add: find_requests scan_empty_guide)
  then show ?thesis
    using t by (simp add: date_of_def day_offsets_def)
qed

text \<open>
  C1. The search adds a fixed hour to the UTC time. For 3 July 2024, 09:45:00 UTC,
  which is 11:45 Prague summer time (UTC+2), it compares 10:45 with the guide and does not
  find the programme listed from 11:30 to 12:00 that covers the instant two hours after
  UTC.
\<close>

theorem summer_target_not_found:
  "program_time 1719999900 = Inr (1719999900 + 3600)
   \<and> covers summer_world (1719999900 + 2 * 3600) (PDict (news True))
   \<and> \<not> covers summer_world (1719999900 + 3600) (PDict (news True))
   \<and> fst (find_program_by_timestamp summer_world (PStr ''x'') 1719999900 (cached 1720020000))
       = Inr PNone"
proof -
  have t: "program_time 1719999900 = Inr 1720003500"
    by (simp add: program_time_eval dt_min_def dt_max_def)
  show ?thesis
    using t by (simp add: covers_def summer_world_def news_check find_program_by_timestamp_def
        scan_summer_miss [unfolded summer_world_def])
qed

text \<open>
  C2, as the code has it. With a valid cached token and a resolved channel: when the
  first covering programme of the guide is not playable (\<open>isPlayable\<close> false, or
  neither \<open>playId\<close> nor \<open>id\<close>), and when none of the eight listings has a covering
  programme, \<open>find_program_by_timestamp\<close> returns the same value \<open>None\<close>, and
  \<open>get_catchup_stream\<close> reports both with the one message "Program nebyl nalezen v
  archivu Prima+"; the two cases differ only in the log.
\<close>

theorem unplayable_reported_as_not_found:
  assumes "has_profile w" and "token_file s = Some (token_record tok v)" and "time_now w < v"
    and "truthy tok"
    and "dt_min \<le> dt_now w - 7 * 86400" and "dt_now w \<le> dt_max"
    and "http w (requests s) (ChannelList tok) = Some cdata" and "truthy (channels_of cdata)"
    and "resolve_channel w channel_id (channels_of cdata) = Inr cid" and "truthy cid"
    and "program_time ts = Inr T"
  shows "(day_offsets = earlier @ off # later
            \<and> quiet_days w tok cid T (requests s @ [ChannelList tok]) earlier
            \<and> day_listing w tok cid
                 ((requests s @ [ChannelList tok])
                    @ map (\<lambda>off. ProgramList tok cid (date_of (dt_now w) + off)) earlier) off
               = PList (before @ PDict d # after)
            \<and> (\<forall>p\<in>set before. \<not> covers w T p) \<and> covers w T (PDict d)
            \<and> \<not> (truthy (dict_get d ''isPlayable'' (PBool False))
                  \<and> truthy (py_or (dict_get d ''playId'' PNone) (dict_get d ''id'' PNone)))
          \<longrightarrow> fst (find_program_by_timestamp w cid ts (issue (ChannelList tok) s)) = Inr PNone
             \<and> fst (get_catchup_stream w channel_id ts s) = Inr (Error ProgramNotFound))
       \<and> (quiet_days w tok cid T (requests s @ [ChannelList tok]) day_offsets
          \<longrightarrow> fst (find_program_by_timestamp w cid ts (issue (ChannelList tok) s)) = Inr PNone
             \<and> fst (get_catchup_stream w channel_id ts s) = Inr (Error ProgramNotFound))"
proof (intro conjI impI)
  let ?s2 = "issue (ChannelList tok) s"
  have tf: "token_file ?s2 = Some (token_record tok v)"
    using assms(2) by simp
  note cache = assms(1) tf assms(3-6)
  {
    assume a: "day_offsets = earlier @ off # later
            \<and> quiet_days w tok cid T (requests s @ [ChannelList tok]) earlier
            \<and> day_listing w tok cid
                 ((requests s @ [ChannelList tok])
                    @ map (\<lambda>off. ProgramList tok cid (date_of (dt_now w) + off)) earlier) off
               = PList (before @ PDict d # after)
            \<and> (\<forall>p\<in>set before. \<not> covers w T p) \<and> covers w T (PDict d)
            \<and> \<not> (truthy (dict_get d ''isPlayable'' (PBool False))
                  \<and> truthy (py_or (dict_get d ''playId'' PNone) (dict_get d ''id'' PNone)))"
    have v: "verdict d = PNone"
      using a by (auto simp: verdict_expand)
    have o: "day_offsets = earlier @ off # later"
      and b: "\<forall>p\<in>set before. \<not> covers w T p" and c: "covers w T (PDict d)"
      using a by blast+
    have q: "quiet_days w tok cid T (requests ?s2) earlier"
      using a by simp
    have l: "day_listing w tok cid
               (requests ?s2
                  @ map (\<lambda>off. ProgramList tok cid (date_of (dt_now w) + off)) earlier) off
             = PList (before @ PDict d # after)"
      using a by simp
    have "find_program_by_timestamp w cid ts ?s2 =
           (Inr (verdict d),
            ?s2\<lparr>requests := requests ?s2
                 @ map (\<lambda>off. ProgramList tok cid (date_of (dt_now w) + off)) (earlier @ [off])\<rparr>)"
      by (rule find_first_cover_cached [OF cache assms(11) o q l b c])
    then have f: "find_program_by_timestamp w cid ts ?s2 =
           (Inr PNone,
            ?s2\<lparr>requests := requests ?s2
                 @ map (\<lambda>off. ProgramList tok cid (date_of (dt_now w) + off)) (earlier @ [off])\<rparr>)"
      by (simp only: v)
    show "fst (find_program_by_timestamp w cid ts (issue (ChannelList tok) s)) = Inr PNone"
      by (simp only: f fst_conv)
    show "fst (get_catchup_stream w channel_id ts s) = Inr (Error ProgramNotFound)"
      using catchup_cached_steps [OF assms(1-4) assms(7-10) f] by simp
  }
  {
    assume a: "quiet_days w tok cid T (requests s @ [ChannelList tok]) day_offsets"
    have f: "find_program_by_timestamp w cid ts ?s2 =
           (Inr PNone,
            ?s2\<lparr>requests := requests ?s2
                 @ map (\<lambda>off. ProgramList tok cid (date_of (dt_now w) + off)) day_offsets\<rparr>)"
      using a by (intro find_quiet_cached [OF cache assms(11)]) simp_all
    show "fst (find_program_by_timestamp w cid ts (issue (ChannelList tok) s)) = Inr PNone"
      by (simp only: f fst_conv)
    show "fst (get_catchup_stream w channel_id ts s) = Inr (Error ProgramNotFound)"
      using catchup_cached_steps [OF assms(1-4) assms(7-10) f] by simp
  }
qed

theorem unplayable_reported_as_not_found_witness:
  "http unplayable_world (requests (cached 1720020000)) (ChannelList (PStr ''tok''))
     = Some (rpc_result channel_list)
   \<and> truthy (channels_of (rpc_result channel_list))
   \<and> resolve_channel unplayable_world ''primacool'' (channels_of (rpc_result channel_list))
       = Inr (PStr ''x'')
   \<and> program_time 1720003500 = Inr 1720007100
   \<and> day_offsets = [] @ 0 # [- 1, - 2, - 3, - 4, - 5, - 6, - 7]
   \<and> day_listing unplayable_world (PStr ''tok'') (PStr ''x'')
        [ChannelList (PStr ''tok'')] 0
       = PList ([] @ PDict (news False) # [])
   \<and> covers unplayable_world 1720007100 (PDict (news False))
   \<and> \<not> truthy (dict_get (news False) ''isPlayable'' (PBool False))
   \<and> fst (get_catchup_stream unplayable_world ''primacool'' 1720003500 (cached 1720020000))
       = Inr (Error ProgramNotFound)
   \<and> quiet_days (demo_world (guide [])) (PStr ''tok'') (PStr ''x'') 1720007100
        [ChannelList (PStr ''tok'')] day_offsets
   \<and> fst (get_catchup_stream (demo_world (guide [])) ''primacool'' 1720003500 (cached 1720020000))
       = Inr (Error ProgramNotFound)"
proof -
  let ?e = "demo_world (guide [])"
  let ?s = "cached 1720020000"
  let ?tok = "PStr ''tok''"
  let ?cid = "PStr ''x''"
  have hA: "has_profile unplayable_world"
    "token_file ?s = Some (token_record (PStr ''tok'') 1720020000)"
    "time_now unplayable_world < 1720020000" "truthy ?tok"
    "dt_min \<le> dt_now unplayable_world - 7 * 86400" "dt_now unplayable_world \<le> dt_max"
    unfolding unplayable_world_def by (rule demo_cache)+
  have hB: "has_profile ?e"
    "token_file ?s = Some (token_record (PStr ''tok'') 1720020000)"
    "time_now ?e < 1720020000" "truthy ?tok"
    "dt_min \<le> dt_now ?e - 7 * 86400" "dt_now ?e \<le> dt_max"
    by (rule demo_cache)+
  have cA: "http unplayable_world (requests ?s) (ChannelList ?tok) = Some (rpc_result channel_list)"
    by (simp add: unplayable_world_def)
  have cB: "http ?e (requests ?s) (ChannelList ?tok) = Some (rpc_result channel_list)"
    by simp
  have "truthy channel_list"
    by (simp add: channel_list_def)
  then have tr: "truthy (channels_of (rpc_result channel_list))" "truthy ?cid"
    by simp_all
  have rA: "resolve_channel unplayable_world ''primacool'' (channels_of (rpc_result channel_list))
       = Inr ?cid"
    unfolding unplayable_world_def by (simp add: resolve_primacool)
  have rB: "resolve_channel ?e ''primacool'' (channels_of (rpc_result channel_list)) = Inr ?cid"
    by (simp add: resolve_primacool)
  note t = demo_program_time
  have o: "day_offsets = [] @ 0 # [- 1, - 2, - 3, - 4, - 5, - 6, - 7]"
    by (simp add: day_offsets_def)
  have l: "day_listing unplayable_world ?tok ?cid [ChannelList ?tok] 0
       = PList ([] @ PDict (news False) # [])"
    by (simp add: unplayable_world_def demo_day_listing)
  have c: "covers unplayable_world 1720007100 (PDict (news False))"
    by (simp add: unplayable_world_def news_covers)
  have n: "\<not> truthy (dict_get (news False) ''isPlayable'' (PBool False))"
    by (simp add: news_def dict_get_def)
  have q: "quiet_days ?e ?tok ?cid 1720007100 [ChannelList ?tok] day_offsets"
    by (simp add: day_offsets_def demo_day_listing no_cover_def)
  have pA: "day_offsets = [] @ 0 # [- 1, - 2, - 3, - 4, - 5, - 6, - 7]
            \<and> quiet_days unplayable_world ?tok ?cid 1720007100 (requests ?s @ [ChannelList ?tok]) []
            \<and> day_listing unplayable_world ?tok ?cid
                 ((requests ?s @ [ChannelList ?tok])
                    @ map (\<lambda>off. ProgramList ?tok ?cid (date_of (dt_now unplayable_world) + off)) []) 0
               = PList ([] @ PDict (news False) # [])
            \<and> (\<forall>p\<in>set []. \<not> covers unplayable_world 1720007100 p)
            \<and> covers unplayable_world 1720007100 (PDict (news False))
            \<and> \<not> (truthy (dict_get (news False) ''isPlayable'' (PBool False))
                  \<and> truthy (py_or (dict_get (news False) ''playId'' PNone)
                                   (dict_get (news False) ''id'' PNone)))"
    using o l c n by simp
  have pB: "quiet_days ?e ?tok ?cid 1720007100 (requests ?s @ [ChannelList ?tok]) day_offsets"
    using q by simp
  note A = unplayable_reported_as_not_found [OF hA cA tr(1) rA tr(2) t,
      THEN conjunct1, THEN mp, OF pA, THEN conjunct2]
  note B = unplayable_reported_as_not_found [OF hB cB tr(1) rB tr(2) t,
      THEN conjunct2, THEN mp, OF pB, THEN conjunct2]
  show ?thesis
    using cA tr(1) rA t o l c n q A B by simp
qed

text \<open>
  C2 as stated fails: a guide with a covering programme that is not playable and a
  guide with no covering programme at all give the same error value.
\<close>

theorem not_playable_indistinct_counterexample:
  "covers unplayable_world 1720007100 (PDict (news False))
   \<and> fst (scan_days unplayable_world (PStr ''x'') 1720007100 day_offsets
            (issue (ChannelList (PStr ''tok'')) (cached 1720020000)))
       = Inr (Return PNone)
   \<and> fst (scan_days (demo_world (guide [])) (PStr ''x'') 1720007100 day_offsets
            (issue (ChannelList (PStr ''tok'')) (cached 1720020000)))
       = Inr Continue
   \<and> fst (get_catchup_stream unplayable_world ''primacool'' 1720003500 (cached 1720020000))
       = Inr (Error ProgramNotFound)
   \<and> fst (get_catchup_stream (demo_world (guide [])) ''primacool'' 1720003500 (cached 1720020000))
       = Inr (Error ProgramNotFound)"
proof -
  let ?s = "cached 1720020000"
  let ?s2 = "issue (ChannelList (PStr ''tok'')) ?s"
  let ?e = "demo_world (guide [])"
  have tokA: "get_prima_token unplayable_world ?s = (Inr (PStr ''tok''), ?s)"
    by (intro get_prima_token_cached [where v = 1720020000]) (simp_all add: unplayable_world_def)
  have tokB: "get_prima_token ?e ?s = (Inr (PStr ''tok''), ?s)"
    by (intro get_prima_token_cached [where v = 1720020000]) simp_all
  have chA: "get_epg_channels unplayable_world ?s = (Inr channel_list, ?s2)"
    by (simp add: unplayable_world_def demo_get_epg_channels)
  have chB: "get_epg_channels ?e ?s = (Inr channel_list, ?s2)"
    by (simp add: demo_get_epg_channels)
  have tr: "truthy (PStr ''tok'')" "truthy channel_list" "truthy (PStr ''x'')"
    by (simp_all add: channel_list_def)
  have t: "program_time 1720003500 = Inr 1720007100"
    by (simp add: program_time_eval dt_min_def dt_max_def)
  have scA: "scan_days unplayable_world (PStr ''x'') 1720007100 day_offsets ?s2
       = (Inr (Return PNone), issue (ProgramList (PStr ''tok'') (PStr ''x'') 19907) ?s2)"
    by (rule scan_unplayable_from) simp
  have scB: "scan_days ?e (PStr ''x'') 1720007100 day_offsets ?s2
       = (Inr Continue,
          ?s2\<lparr>requests := requests ?s2
               @ map (\<lambda>off. ProgramList (PStr ''tok'') (PStr ''x'') (19907 + off)) day_offsets\<rparr>)"
    by (rule scan_empty_guide_from) simp
  have fA: "find_program_by_timestamp unplayable_world (PStr ''x'') 1720003500 ?s2
      = (Inr PNone, issue (ProgramList (PStr ''tok'') (PStr ''x'') 19907) ?s2)"
    by (simp add: find_program_by_timestamp_def t scA)
  have fB: "find_program_by_timestamp ?e (PStr ''x'') 1720003500 ?s2
      = (Inr PNone, ?s2\<lparr>requests := requests ?s2
               @ map (\<lambda>off. ProgramList (PStr ''tok'') (PStr ''x'') (19907 + off)) day_offsets\<rparr>)"
    by (simp add: find_program_by_timestamp_def t scB)
  have rA: "resolve_channel unplayable_world ''primacool'' channel_list = Inr (PStr ''x'')"
    unfolding unplayable_world_def by (rule resolve_primacool)
  have rB: "resolve_channel ?e ''primacool'' channel_list = Inr (PStr ''x'')"
    by (rule resolve_primacool)
  have c: "covers unplayable_world 1720007100 (PDict (news False))"
    by (simp add: unplayable_world_def covers_def news_check)
  show ?thesis
    using c scA scB
      catchup_steps [OF tokA tr(1) chA tr(2) rA tr(3) fA]
      catchup_steps [OF tokB tr(1) chB tr(2) rB tr(3) fB]
    by simp
qed

subsection \<open>Channel resolution\<close>

text \<open>
  C5, as the code has it. The channel key is mapped to its name fragments by the alias
  table (the key itself when it has no alias), and the resolved id is the id of the
  first channel, in the order of the provider's list, whose lower-cased title contains
  a lower-cased fragment and whose id is non-empty; the channels before it have a string
  (or no) title, and those among them whose title matches but whose id is empty are
  passed over. Lower-casing is \<open>str.lower\<close>, whatever the characters of the title. For
  the list of "Prima Cool" (id x) and "Prima" (id y) and the key "primacool" the
  resolved id is x, in either order of the list.
\<close>

theorem resolve_channel_first_match:
  assumes "\<forall>ch\<in>set before. \<exists>d0 t0. ch = PDict d0 \<and> dict_get d0 ''title'' (PStr []) = PStr t0
           \<and> \<not> (name_matches w (search_names channel_id) (str_lower w t0)
                 \<and> truthy (dict_get d0 ''id'' (PStr [])))"
    and "dict_get d ''title'' (PStr []) = PStr title"
    and "name_matches w (search_names channel_id) (str_lower w title)"
    and "truthy (dict_get d ''id'' (PStr []))"
  shows "search_names channel_id =
           (case map_of channel_name_map channel_id of
              None \<Rightarrow> [channel_id]
            | Some names \<Rightarrow> names)
       \<and> resolve_channel w channel_id (PList (before @ PDict d # after))
           = Inr (dict_get d ''id'' (PStr []))"
proof -
  have b: "\<forall>ch\<in>set before. \<exists>d0 t0. ch = PDict d0 \<and> ch_title w d0 = Inr t0
           \<and> \<not> (name_matches w (search_names channel_id) t0 \<and> truthy (ch_id d0))"
  proof
    fix ch
    assume "ch \<in> set before"
    then obtain d0 t0 where c: "ch = PDict d0" "dict_get d0 ''title'' (PStr []) = PStr t0"
      "\<not> (name_matches w (search_names channel_id) (str_lower w t0)
          \<and> truthy (dict_get d0 ''id'' (PStr [])))"
      using assms(1) by blast
    have "ch_title w d0 = Inr (str_lower w t0)"
      using c(2) by (simp add: ch_title_def)
    moreover have "\<not> (name_matches w (search_names channel_id) (str_lower w t0)
          \<and> truthy (ch_id d0))"
      using c(3) by (simp add: ch_id_def)
    ultimately show "\<exists>d0 t0. ch = PDict d0 \<and> ch_title w d0 = Inr t0
           \<and> \<not> (name_matches w (search_names channel_id) t0 \<and> truthy (ch_id d0))"
      using c(1) by blast
  qed
  have t: "ch_title w d = Inr (str_lower w title)"
    using assms(2) by (simp add: ch_title_def)
  have i: "truthy (ch_id d)"
    using assms(4) by (simp add: ch_id_def)
  have n: "\<not> truthy PNone"
    by simp
  have "find_channel w (search_names channel_id) PNone (before @ PDict d # after) = Inr (ch_id d)"
    by (rule find_channel_first [OF n b t assms(3) i])
  then show ?thesis
    by (simp add: resolve_channel_def search_names_def ch_id_def)
qed

theorem resolve_channel_first_match_witness:
  "search_names ''primacool'' = [''cool'', ''prima cool'']
   \<and> str_lower (demo_world (guide [])) ''Prima Cool'' = ''prima cool''
   \<and> name_matches (demo_world (guide [])) (search_names ''primacool'') ''prima cool''
   \<and> resolve_channel (demo_world (guide [])) ''primacool''
        (PList [PDict [(''id'', PStr ''x''), (''title'', PStr ''Prima Cool'')],
                PDict [(''id'', PStr ''y''), (''title'', PStr ''Prima'')]]) = Inr (PStr ''x'')
   \<and> str_lower (demo_world (guide [])) ''Prima'' = ''prima''
   \<and> \<not> name_matches (demo_world (guide [])) (search_names ''primacool'') ''prima''
   \<and> resolve_channel (demo_world (guide [])) ''primacool''
        (PList [PDict [(''id'', PStr ''y''), (''title'', PStr ''Prima'')],
                PDict [(''id'', PStr ''x''), (''title'', PStr ''Prima Cool'')]]) = Inr (PStr ''x'')"
proof -
  let ?w = "demo_world (guide [])"
  let ?x = "[(''id'', PStr ''x''), (''title'', PStr ''Prima Cool'')]"
  let ?y = "[(''id'', PStr ''y''), (''title'', PStr ''Prima'')]"
  have tx: "dict_get ?x ''title'' (PStr []) = PStr ''Prima Cool''"
    by (simp add: dict_get_def)
  have lx: "str_lower ?w ''Prima Cool'' = ''prima cool''"
    by (simp add: lower_eval)
  have ly: "str_lower ?w ''Prima'' = ''prima''"
    by (simp add: lower_eval)
  have mx: "name_matches ?w (search_names ''primacool'') (str_lower ?w ''Prima Cool'')"
    by (simp add: name_matches_def search_names_primacool lower_eval)
  have my: "\<not> name_matches ?w (search_names ''primacool'') (str_lower ?w ''Prima'')"
    by (simp add: name_matches_def search_names_primacool lower_eval)
  have ix: "truthy (dict_get ?x ''id'' (PStr []))"
    by (simp add: dict_get_def)
  have b0: "\<forall>ch\<in>set []. \<exists>d0 t0. ch = PDict d0 \<and> dict_get d0 ''title'' (PStr []) = PStr t0
           \<and> \<not> (name_matches ?w (search_names ''primacool'') (str_lower ?w t0)
                 \<and> truthy (dict_get d0 ''id'' (PStr [])))"
    by simp
  have ty: "dict_get ?y ''title'' (PStr []) = PStr ''Prima''"
    by (simp add: dict_get_def)
  have b1: "\<forall>ch\<in>set [PDict ?y]. \<exists>d0 t0. ch = PDict d0 \<and> dict_get d0 ''title'' (PStr []) = PStr t0
           \<and> \<not> (name_matches ?w (search_names ''primacool'') (str_lower ?w t0)
                 \<and> truthy (dict_get d0 ''id'' (PStr [])))"
    using my ty by auto
  have i: "dict_get ?x ''id'' (PStr []) = PStr ''x''"
    by (simp add: dict_get_def)
  have A: "resolve_channel ?w ''primacool'' (PList ([] @ PDict ?x # [PDict ?y]))
             = Inr (dict_get ?x ''id'' (PStr []))"
    using resolve_channel_first_match [OF b0 tx mx ix, of "[PDict ?y]"] by blast
  have B: "resolve_channel ?w ''primacool'' (PList ([PDict ?y] @ PDict ?x # []))
             = Inr (dict_get ?x ''id'' (PStr []))"
    using resolve_channel_first_match [OF b1 tx mx ix, of "[]"] by blast
  have A': "resolve_channel ?w ''primacool'' (PList [PDict ?x, PDict ?y]) = Inr (PStr ''x'')"
    using A unfolding i by simp
  have B': "resolve_channel ?w ''primacool'' (PList [PDict ?y, PDict ?x]) = Inr (PStr ''x'')"
    using B unfolding i by simp
  have mx': "name_matches ?w (search_names ''primacool'') ''prima cool''"
    using mx unfolding lx .
  have my': "\<not> name_matches ?w (search_names ''primacool'') ''prima''"
    using my unfolding ly .
  show ?thesis
    using search_names_primacool lx ly mx' my' A' B' by blast
qed

text \<open>
  C5 as stated fails when the first channel whose title matches has an empty id: the
  loop goes on and resolves the id of a later channel.
\<close>

theorem empty_id_passed_over_counterexample:
  "dict_get [(''id'', PStr []), (''title'', PStr ''Prima Cool'')] ''title'' (PStr [])
     = PStr ''Prima Cool''
   \<and> str_lower (demo_world (guide [])) ''Prima Cool'' = ''prima cool''
   \<and> name_matches (demo_world (guide [])) (search_names ''primacool'') ''prima cool''
   \<and> dict_get [(''id'', PStr []), (''title'', PStr ''Prima Cool'')] ''id'' (PStr []) = PStr []
   \<and> resolve_channel (demo_world (guide [])) ''primacool''
        (PList [PDict [(''id'', PStr []), (''title'', PStr ''Prima Cool'')],
                PDict [(''id'', PStr ''y''), (''title'', PStr ''Cool TV'')]]) = Inr (PStr ''y'')"
  by (simp add: resolve_channel_def search_names_primacool ch_title_def ch_id_def
      dict_get_def name_matches_def lower_eval)

subsection \<open>Stream selection\<close>

text \<open>
  C8, as the code has it. When \<open>streamInfos\<close> is a list of entries whose urls are
  strings, the selected url is that of the first entry of type HLS with a non-empty
  url, or that of the first entry when there is none. When the selected url is
  non-empty the descriptor returned has this url with every "_lq" removed; when it is
  empty or absent the result is an error, not a descriptor. An absent or empty
  \<open>streamInfos\<close> gives an error, never a descriptor.
\<close>

theorem archive_stream_selection:
  "(map_of dd ''streamInfos'' = Some (PList (map PDict ds))
      \<and> (\<forall>d\<in>set ds. \<exists>u. stream_url_temp d = PStr u)
      \<and> selected_url ds = PStr u \<and> u \<noteq> []
     \<longrightarrow> archive_stream (PDict dd) =
           Stream \<lparr>url = str_remove ''_lq'' u, manifest_type = ''hls'', headers = HEADERS\<rparr>)
   \<and> (map_of dd ''streamInfos'' = Some (PList (map PDict ds))
      \<and> (\<forall>d\<in>set ds. \<exists>u. stream_url_temp d = PStr u)
      \<and> \<not> truthy (selected_url ds)
     \<longrightarrow> (\<exists>e. archive_stream (PDict dd) = Error e))
   \<and> ((case map_of dd ''streamInfos'' of None \<Rightarrow> True | Some infos \<Rightarrow> \<not> truthy infos)
     \<longrightarrow> (\<exists>e. archive_stream (PDict dd) = Error e))"
proof (intro conjI impI)
  assume a: "map_of dd ''streamInfos'' = Some (PList (map PDict ds))
      \<and> (\<forall>d\<in>set ds. \<exists>u. stream_url_temp d = PStr u)
      \<and> selected_url ds = PStr u \<and> u \<noteq> []"
  then have ne: "ds \<noteq> []"
    by (auto simp: selected_url_def)
  have "choose_url (PList (map PDict ds)) = Inr (PStr u)"
    using choose_url_dicts [of ds] a ne by simp
  then show "archive_stream (PDict dd) =
           Stream \<lparr>url = str_remove ''_lq'' u, manifest_type = ''hls'', headers = HEADERS\<rparr>"
    using a ne by (simp add: archive_stream_def archive_stream_body_def)
next
  assume a: "map_of dd ''streamInfos'' = Some (PList (map PDict ds))
      \<and> (\<forall>d\<in>set ds. \<exists>u. stream_url_temp d = PStr u)
      \<and> \<not> truthy (selected_url ds)"
  show "\<exists>e. archive_stream (PDict dd) = Error e"
  proof (cases "ds = []")
    case True
    have "case map_of dd ''streamInfos'' of None \<Rightarrow> True | Some infos \<Rightarrow> \<not> truthy infos"
      using a True by simp
    then show ?thesis
      by (rule archive_stream_no_infos)
  next
    case False
    have "choose_url (PList (map PDict ds)) = Inr (selected_url ds)"
      using choose_url_dicts [of ds] a False by simp
    then have "archive_stream_body (PDict dd) = no_stream (PDict dd)"
      using a False by (simp add: archive_stream_body_def)
    then show ?thesis
      using no_stream_not_Stream [of "PDict dd"]
      by (cases "no_stream (PDict dd)") (auto simp: archive_stream_def intro: result.exhaust)
  qed
next
  assume "case map_of dd ''streamInfos'' of None \<Rightarrow> True | Some infos \<Rightarrow> \<not> truthy infos"
  then show "\<exists>e. archive_stream (PDict dd) = Error e"
    by (rule archive_stream_no_infos)
qed

theorem archive_stream_selection_witness:
  "archive_stream play_response
     = Stream \<lparr>url = ''http://cdn/a.m3u8'', manifest_type = ''hls'', headers = HEADERS\<rparr>
   \<and> archive_stream
       (PDict [(''streamInfos'',
                PList [PDict [(''type'', PStr ''DASH''), (''url'', PStr ''http://cdn/a_lq.mpd'')]])])
     = Stream \<lparr>url = ''http://cdn/a.mpd'', manifest_type = ''hls'', headers = HEADERS\<rparr>
   \<and> selected_url [[(''type'', PStr ''DASH''), (''url'', PStr [])]] = PStr []
   \<and> (\<exists>e. archive_stream
             (PDict [(''streamInfos'',
                      PList [PDict [(''type'', PStr ''DASH''), (''url'', PStr [])]])])
           = Error e)
   \<and> (\<exists>e. archive_stream (PDict [(''streamInfos'', PList [])]) = Error e)
   \<and> (\<exists>e. archive_stream (PDict [(''error'', PStr ''gone'')]) = Error e)"
proof -
  let ?dash = "[(''type'', PStr ''DASH''), (''url'', PStr ''http://cdn/a_lq.mpd'')]"
  let ?hls = "[(''type'', PStr ''HLS''), (''url'', PStr ''http://cdn/a_lq.m3u8'')]"
  let ?nourl = "[(''type'', PStr ''DASH''), (''url'', PStr [])]"
  have 1: "map_of [(''streamInfos'', PList [PDict ?dash, PDict ?hls])] ''streamInfos''
             = Some (PList (map PDict [?dash, ?hls]))
      \<and> (\<forall>d\<in>set [?dash, ?hls]. \<exists>u. stream_url_temp d = PStr u)
      \<and> selected_url [?dash, ?hls] = PStr ''http://cdn/a_lq.m3u8'' \<and> ''http://cdn/a_lq.m3u8'' \<noteq> []"
    by (simp add: selected_url_def stream_type_def stream_url_temp_def dict_get_def)
  have 2: "map_of [(''streamInfos'', PList [PDict ?dash])] ''streamInfos''
             = Some (PList (map PDict [?dash]))
      \<and> (\<forall>d\<in>set [?dash]. \<exists>u. stream_url_temp d = PStr u)
      \<and> selected_url [?dash] = PStr ''http://cdn/a_lq.mpd'' \<and> ''http://cdn/a_lq.mpd'' \<noteq> []"
    by (simp add: selected_url_def stream_type_def stream_url_temp_def dict_get_def)
  have s: "selected_url [?nourl] = PStr []"
    by (simp add: selected_url_def stream_type_def stream_url_temp_def dict_get_def)
  have 5: "map_of [(''streamInfos'', PList [PDict ?nourl])] ''streamInfos''
             = Some (PList (map PDict [?nourl]))
      \<and> (\<forall>d\<in>set [?nourl]. \<exists>u. stream_url_temp d = PStr u)
      \<and> \<not> truthy (selected_url [?nourl])"
    unfolding s by (simp add: stream_url_temp_def dict_get_def)
  have 3: "case map_of [(''streamInfos'', PList [])] ''streamInfos'' of
             None \<Rightarrow> True | Some infos \<Rightarrow> \<not> truthy infos"
    by simp
  have 4: "case map_of [(''error'', PStr ''gone'')] ''streamInfos'' of
             None \<Rightarrow> True | Some infos \<Rightarrow> \<not> truthy infos"
    by simp
  note A = archive_stream_selection
    [of "[(''streamInfos'', PList [PDict ?dash, PDict ?hls])]" "[?dash, ?hls]" "''http://cdn/a_lq.m3u8''",
     THEN conjunct1, THEN mp, OF 1]
  note B = archive_stream_selection
    [of "[(''streamInfos'', PList [PDict ?dash])]" "[?dash]" "''http://cdn/a_lq.mpd''",
     THEN conjunct1, THEN mp, OF 2]
  note E = archive_stream_selection
    [of "[(''streamInfos'', PList [PDict ?nourl])]" "[?nourl]",
     THEN conjunct2, THEN conjunct1, THEN mp, OF 5]
  note C = archive_stream_selection
    [of "[(''streamInfos'', PList [])]", THEN conjunct2, THEN conjunct2, THEN mp, OF 3]
  note D = archive_stream_selection
    [of "[(''error'', PStr ''gone'')]", THEN conjunct2, THEN conjunct2, THEN mp, OF 4]
  show ?thesis
    using A B C D E s by (simp add: play_response_def str_remove_eval)
qed

text \<open>
  C8 as stated fails when the first entry of type HLS has an empty url: the url
  returned is that of a later entry.
\<close>

theorem empty_hls_url_counterexample:
  "stream_type [(''type'', PStr ''HLS''), (''url'', PStr [])] = PStr ''HLS''
   \<and> stream_url_temp [(''type'', PStr ''HLS''), (''url'', PStr [])] = PStr []
   \<and> archive_stream two_hls_response
       = Stream \<lparr>url = ''http://cdn/b.m3u8'', manifest_type = ''hls'', headers = HEADERS\<rparr>"
  by (simp add: two_hls_response_def archive_stream_def archive_stream_body_def choose_url_def
      stream_type_def stream_url_temp_def dict_get_def str_remove_eval)
end
